theory Spec2Isabelle
  imports Complex_Main
begin

section \<open>JavaScript values\<close>

text \<open>
  The store receives what \<^verbatim>\<open>JSON.parse\<close> returns, and the declared type of a message
  leaves most payload fields \<^verbatim>\<open>any\<close>.  A value is therefore a JSON value, plus
  \<^verbatim>\<open>undefined\<close> for what a missing property reads as.  An object is the list of its
  members in source order; a repeated key takes its last value, as \<^verbatim>\<open>JSON.parse\<close> and
  object literals do.  A number carries the value of the parsed double, a string the list
  of its code units.
\<close>

datatype jsval =
    JUndefined
  | JNull
  | JBool bool
  | JNum rat
  | JStr string
  | JArr "jsval list"
  | JObj "(string \<times> jsval) list"

type_synonym Message = "(string \<times> jsval) list"

text \<open>Property read \<^verbatim>\<open>msg.k\<close> on an object: \<^verbatim>\<open>undefined\<close> when the key is missing.\<close>

definition get :: "Message \<Rightarrow> string \<Rightarrow> jsval" where
  "get m k = (case map_of (rev m) k of None \<Rightarrow> JUndefined | Some v \<Rightarrow> v)"

text \<open>JavaScript truthiness, as used by \<^verbatim>\<open>&&\<close>, \<^verbatim>\<open>||\<close>, \<^verbatim>\<open>!\<close> and \<^verbatim>\<open>if\<close>.\<close>

fun truthy :: "jsval \<Rightarrow> bool" where
  "truthy JUndefined = False"
| "truthy JNull = False"
| "truthy (JBool b) = b"
| "truthy (JNum q) = (q \<noteq> 0)"
| "truthy (JStr s) = (s \<noteq> [])"
| "truthy (JArr xs) = True"
| "truthy (JObj m) = True"

text \<open>\<^verbatim>\<open>a || b\<close> and \<^verbatim>\<open>a ?? b\<close>.\<close>

definition orElse :: "jsval \<Rightarrow> jsval \<Rightarrow> jsval" where
  "orElse a b = (if truthy a then a else b)"

definition nullish :: "jsval \<Rightarrow> bool" where
  "nullish v = (v = JUndefined \<or> v = JNull)"

definition coalesce :: "jsval \<Rightarrow> jsval \<Rightarrow> jsval" where
  "coalesce a b = (if nullish a then b else a)"

text \<open>
  Strict equality \<^verbatim>\<open>===\<close>.  Primitives compare by value; arrays and objects compare by
  reference, and two values decoded from different frames are never the same reference.
\<close>

fun strict_eq :: "jsval \<Rightarrow> jsval \<Rightarrow> bool" where
  "strict_eq JUndefined JUndefined = True"
| "strict_eq JNull JNull = True"
| "strict_eq (JBool a) (JBool b) = (a = b)"
| "strict_eq (JNum a) (JNum b) = (a = b)"
| "strict_eq (JStr a) (JStr b) = (a = b)"
| "strict_eq _ _ = False"

text \<open>
  Property read \<^verbatim>\<open>v.k\<close> for one of the identifiers the store reads, on a receiver that is
  not \<^verbatim>\<open>null\<close> or \<^verbatim>\<open>undefined\<close> (there the read throws, and every caller below checks
  first).  Of the names read, only \<^verbatim>\<open>length\<close> exists on arrays and strings.
\<close>

fun getProp :: "jsval \<Rightarrow> string \<Rightarrow> jsval" where
  "getProp (JObj m) k = get m k"
| "getProp (JArr xs) k = (if k = ''length'' then JNum (of_nat (length xs)) else JUndefined)"
| "getProp (JStr s) k = (if k = ''length'' then JNum (of_nat (length s)) else JUndefined)"
| "getProp _ k = JUndefined"

text \<open>Optional chaining \<^verbatim>\<open>v?.k\<close>.\<close>

definition optProp :: "jsval \<Rightarrow> string \<Rightarrow> jsval" where
  "optProp v k = (if nullish v then JUndefined else getProp v k)"

text \<open>Decimal rendering of a natural number, as a template literal prints it.\<close>

fun show_nat :: "nat \<Rightarrow> string" where
  "show_nat n =
     (if n < 10 then [char_of (48 + n)]
      else show_nat (n div 10) @ [char_of (48 + n mod 10)])"

declare show_nat.simps [simp del]

text \<open>Optional indexing \<^verbatim>\<open>v?.[i]\<close> with a number.\<close>

fun optIndex :: "jsval \<Rightarrow> nat \<Rightarrow> jsval" where
  "optIndex (JArr xs) i = (if i < length xs then xs ! i else JUndefined)"
| "optIndex (JObj m) i = get m (show_nat i)"
| "optIndex (JStr s) i = (if i < length s then JStr [s ! i] else JUndefined)"
| "optIndex _ i = JUndefined"

text \<open>
  Object spread.  \<^verbatim>\<open>{...a, ...b}\<close> assigns the members of \<open>a\<close>, then those of \<open>b\<close>, to a
  fresh object: a key already there keeps its place and takes the new value, a new key
  goes to the end.
\<close>

fun assign :: "string \<Rightarrow> jsval \<Rightarrow> Message \<Rightarrow> Message" where
  "assign k v [] = [(k, v)]"
| "assign k v (p # ps) = (if fst p = k then (k, v) # ps else p # assign k v ps)"

definition spread :: "Message \<Rightarrow> Message \<Rightarrow> Message" where
  "spread a b = fold (\<lambda>(k, v). assign k v) (a @ b) []"

text \<open>The own enumerable members that a spread copies out of an arbitrary value.\<close>

fun entries :: "jsval \<Rightarrow> Message" where
  "entries (JObj m) = m"
| "entries (JArr xs) = map (\<lambda>i. (show_nat i, xs ! i)) [0..<length xs]"
| "entries (JStr s) = map (\<lambda>i. (show_nat i, JStr [s ! i])) [0..<length s]"
| "entries _ = []"

text \<open>\<^verbatim>\<open>Array.prototype.findIndex\<close>: the first index that satisfies the test, \<open>None\<close> for -1.\<close>

fun findIndex :: "('a \<Rightarrow> bool) \<Rightarrow> 'a list \<Rightarrow> nat option" where
  "findIndex P [] = None"
| "findIndex P (x # xs) =
     (if P x then Some 0 else (case findIndex P xs of None \<Rightarrow> None | Some i \<Rightarrow> Some (Suc i)))"

text \<open>
  \<^verbatim>\<open>String.prototype.split\<close> with a non-empty separator (every separator below is a
  literal), and \<^verbatim>\<open>includes\<close> (here \<open>includesStr\<close>).
\<close>

function splitOn :: "string \<Rightarrow> string \<Rightarrow> string list" where
  "splitOn sep s =
     (if sep = [] \<or> s = [] then [s]
      else if take (length sep) s = sep then [] # splitOn sep (drop (length sep) s)
      else (case splitOn sep (tl s) of
              [] \<Rightarrow> [[hd s]]
            | w # ws \<Rightarrow> (hd s # w) # ws))"
  by pat_completeness auto
termination
  by (relation "measure (\<lambda>(sep, s). length s)") auto

declare splitOn.simps [simp del]

fun includesStr :: "string \<Rightarrow> string \<Rightarrow> bool" where
  "includesStr sub [] = (sub = [])"
| "includesStr sub (c # cs) = (take (length sub) (c # cs) = sub \<or> includesStr sub cs)"

section \<open>What the runtime supplies\<close>

text \<open>
  The clock, the random number generator and two conversions of the language are not code
  of the repository; a dispatch takes them as parameters.  The clock is read as constant
  during one synchronous dispatch, \<open>random env k\<close> is the rendering of the \<open>k\<close>-th call of
  \<^verbatim>\<open>Math.random()\<close> in it, and \<open>toNumber\<close> is the conversion that \<^verbatim>\<open>>\<close> applies to a
  string, an array or an object (\<open>None\<close> for NaN).
\<close>

record Env =
  now :: nat
  isoNow :: string
  random :: "nat \<Rightarrow> string"
  toLowerCase :: "string \<Rightarrow> string"
  toNumber :: "jsval \<Rightarrow> rat option"

text \<open>The comparison \<^verbatim>\<open>v > 0\<close>.\<close>

fun gt0 :: "Env \<Rightarrow> jsval \<Rightarrow> bool" where
  "gt0 env (JNum q) = (0 < q)"
| "gt0 env (JBool b) = b"
| "gt0 env JUndefined = False"
| "gt0 env JNull = False"
| "gt0 env v = (case toNumber env v of None \<Rightarrow> False | Some q \<Rightarrow> 0 < q)"

text \<open>What the runtime throws.\<close>

datatype exn = TypeError | SyntaxError

section \<open>The message store (useRealtimeStore)\<close>

text \<open>
  Field names carry the prefix of their interface where two interfaces share a name or
  the name is taken in HOL.  A field the declared type marks optional holds
  \<open>JUndefined\<close> when it is left out.
\<close>

record ToolCall =
  tc_tool :: jsval
  tc_args :: jsval
  tc_step :: jsval
  tc_description :: jsval

record ToolResult =
  tr_tool :: jsval
  tr_step :: jsval
  tr_result :: jsval
  tr_success :: jsval
  tr_error :: jsval

record Progress =
  percent :: jsval
  status :: jsval
  step :: jsval

record ScriptContent =
  sc_id :: string
  sc_content :: jsval
  sc_timestamp :: string
  sc_tool :: string

record ProjectFile =
  pf_id :: string
  pf_name :: jsval
  pf_type :: jsval
  pf_path :: jsval
  pf_url :: jsval
  pf_size :: jsval
  pf_timestamp :: string
  pf_thumbnail :: jsval
  pf_duration :: jsval
  pf_source :: jsval

record VideoPreview =
  vp_id :: string
  vp_path :: jsval
  vp_timestamp :: string
  vp_status :: string
  vp_thumbnail :: jsval

record UserContext =
  uc_style :: string
  uc_tone :: string
  uc_length :: string
  preferences :: jsval

datatype ConnectionStatus = Connecting | Connected | Reconnecting | Disconnected

record RealtimeStore =
  connectionStatus :: ConnectionStatus
  error :: jsval
  messages :: "Message list"
  toolCalls :: "ToolCall list"
  toolResults :: "ToolResult list"
  progress :: Progress
  scripts :: "ScriptContent list"
  projectFiles :: "ProjectFile list"
  videoPreviews :: "VideoPreview list"
  selectedFile :: "ProjectFile option"
  userContext :: UserContext

definition initialState :: RealtimeStore where
  "initialState =
     \<lparr>connectionStatus = Disconnected, error = JNull, messages = [], toolCalls = [],
      toolResults = [],
      progress = \<lparr>percent = JNum 0, status = JStr '''', step = JStr ''''\<rparr>,
      scripts = [], projectFiles = [], videoPreviews = [], selectedFile = None,
      userContext = \<lparr>uc_style = ''cinematic'', uc_tone = ''professional'',
                     uc_length = ''medium'', preferences = JObj []\<rparr>\<rparr>"

subsection \<open>The message log\<close>

text \<open>
  The first statement of \<^verbatim>\<open>handleMessage\<close>: a copy of the log, in which the message either
  is merged into the entry that \<^verbatim>\<open>findIndex\<close> returns or is pushed.
\<close>

definition logUpdate :: "Message list \<Rightarrow> Message \<Rightarrow> Message list" where
  "logUpdate msgs msg =
     (if truthy (get msg ''message_id'') \<and> truthy (get msg ''is_partial'') then
        (case findIndex (\<lambda>m. strict_eq (get m ''message_id'') (get msg ''message_id'')) msgs of
           Some existingIndex \<Rightarrow> msgs[existingIndex := spread (msgs ! existingIndex) msg]
         | None \<Rightarrow> msgs @ [msg])
      else msgs @ [msg])"

subsection \<open>Files reported by a tool result or a GUI update\<close>

text \<open>
  The callback of \<^verbatim>\<open>downloaded_files.forEach\<close>, the same in the \<^verbatim>\<open>tool_result\<close> and the
  \<^verbatim>\<open>gui_update\<close> case.  Reading \<^verbatim>\<open>file.name\<close> throws when the element is \<^verbatim>\<open>null\<close>.
\<close>

definition downloadedFile :: "Env \<Rightarrow> nat \<Rightarrow> jsval \<Rightarrow> exn + ProjectFile" where
  "downloadedFile env k file =
     (if nullish file then Inl TypeError
      else Inr
        \<lparr>pf_id = ''file_'' @ show_nat (now env) @ ''_'' @ random env k,
         pf_name = orElse (getProp file ''name'') (JStr ''B-roll Media''),
         pf_type = orElse (getProp file ''type'') (JStr ''image''),
         pf_path = getProp file ''path'',
         pf_url = getProp file ''url'',
         pf_size = orElse (getProp file ''size'') (JNum 0),
         pf_timestamp = isoNow env,
         pf_thumbnail = orElse (getProp file ''url'') (getProp file ''thumbnail''),
         pf_duration = JUndefined,
         pf_source = orElse (getProp file ''source'') (JStr ''unknown'')\<rparr>)"

text \<open>
  \<^verbatim>\<open>metadata.file_type?.toLowerCase() || 'image'\<close>: the call throws on a value that is
  neither nullish nor a string.
\<close>

fun fileType :: "Env \<Rightarrow> jsval \<Rightarrow> exn + jsval" where
  "fileType env JUndefined = Inr (JStr ''image'')"
| "fileType env JNull = Inr (JStr ''image'')"
| "fileType env (JStr t) = Inr (orElse (JStr (toLowerCase env t)) (JStr ''image''))"
| "fileType env _ = Inl TypeError"

text \<open>
  The callback of \<^verbatim>\<open>file_paths.forEach\<close>.  \<^verbatim>\<open>filePath.split\<close> throws unless the element
  is a string.
\<close>

definition fileFromPath :: "Env \<Rightarrow> jsval \<Rightarrow> nat \<Rightarrow> jsval \<Rightarrow> exn + ProjectFile" where
  "fileFromPath env result index filePath =
     (let metadata = orElse (optIndex (getProp result ''metadata'') index) (JObj []) in
      case filePath of
        JStr p \<Rightarrow>
          (let a = last (splitOn ''/'' p);
               b = last (splitOn [CHR 0x5C] p);
               filename = (if a \<noteq> [] then a else if b \<noteq> [] then b else []);
               projectId =
                 (if includesStr ''Projects'' p then
                    (case splitOn ''Projects/'' p of
                       _ # seg # _ \<Rightarrow>
                         (let d = hd (splitOn ''/'' seg) in if d \<noteq> [] then d else ''default'')
                     | _ \<Rightarrow> ''default'')
                  else ''default'');
               imageUrl = ''http://127.0.0.1:8001/api/projects/'' @ projectId @ ''/broll/'' @ filename
           in case fileType env (getProp metadata ''file_type'') of
                Inl e \<Rightarrow> Inl e
              | Inr t \<Rightarrow> Inr
                  \<lparr>pf_id = ''file_'' @ show_nat (now env) @ ''_'' @ random env index,
                   pf_name = orElse (getProp metadata ''title'')
                                (JStr (''B-roll Media '' @ show_nat (index + 1))),
                   pf_type = t,
                   pf_path = filePath,
                   pf_url = JStr imageUrl,
                   pf_size = orElse (getProp metadata ''file_size'') (JNum 0),
                   pf_timestamp = isoNow env,
                   pf_thumbnail = JStr imageUrl,
                   pf_duration = JUndefined,
                   pf_source = orElse (optIndex (getProp result ''source_types'') index)
                                  (JStr ''unknown'')\<rparr>)
      | _ \<Rightarrow> Inl TypeError)"

text \<open>
  \<^verbatim>\<open>v.forEach((x, index) => projectFiles.push(f(index, x)))\<close>: only an array has
  \<^verbatim>\<open>forEach\<close>; the first callback that throws ends the loop and the dispatch.
\<close>

fun pushEach :: "(nat \<Rightarrow> jsval \<Rightarrow> exn + ProjectFile) \<Rightarrow> nat \<Rightarrow> jsval list \<Rightarrow> ProjectFile list
    \<Rightarrow> exn + ProjectFile list" where
  "pushEach f i [] files = Inr files"
| "pushEach f i (x # xs) files =
     (case f i x of Inl e \<Rightarrow> Inl e | Inr file \<Rightarrow> pushEach f (Suc i) xs (files @ [file]))"

definition forEachPush :: "(nat \<Rightarrow> jsval \<Rightarrow> exn + ProjectFile) \<Rightarrow> jsval \<Rightarrow> ProjectFile list
    \<Rightarrow> exn + ProjectFile list" where
  "forEachPush f v files = (case v of JArr xs \<Rightarrow> pushEach f 0 xs files | _ \<Rightarrow> Inl TypeError)"

text \<open>The informational message that the \<^verbatim>\<open>broll_finder\<close> case pushes onto the log.\<close>

definition brollNote :: "Env \<Rightarrow> jsval \<Rightarrow> Message" where
  "brollNote env result =
     [(''id'', JStr (''msg_'' @ show_nat (now env))),
      (''role'', JStr ''assistant''),
      (''content'', getProp result ''message''),
      (''timestamp'', JStr (isoNow env)),
      (''type'', JStr ''informational'')]"

text \<open>The body of \<^verbatim>\<open>if (msg.tool === 'broll_finder' && msg.result)\<close>.\<close>

definition brollFinder :: "Env \<Rightarrow> jsval \<Rightarrow> ProjectFile list \<Rightarrow> Message list
    \<Rightarrow> exn + (ProjectFile list \<times> Message list)" where
  "brollFinder env result files msgs =
     (let df = getProp result ''downloaded_files'';
          fp = getProp result ''file_paths''
      in case (if truthy df \<and> gt0 env (getProp df ''length'')
               then forEachPush (downloadedFile env) df files else Inr files) of
           Inl e \<Rightarrow> Inl e
         | Inr files1 \<Rightarrow>
             (case (if truthy fp \<and> gt0 env (getProp fp ''length'')
                       \<and> (\<not> truthy df \<or> strict_eq (getProp df ''length'') (JNum 0))
                    then forEachPush (fileFromPath env result) fp files1 else Inr files1) of
                Inl e \<Rightarrow> Inl e
              | Inr files2 \<Rightarrow>
                  Inr (files2,
                       if truthy (getProp result ''message'')
                       then msgs @ [brollNote env result] else msgs)))"

subsection \<open>The cases of the switch that do more than one assignment\<close>

text \<open>\<^verbatim>\<open>file => file.type !== 'script'\<close>, the test of both filters.\<close>

definition notScript :: "ProjectFile \<Rightarrow> bool" where
  "notScript file = (\<not> strict_eq (pf_type file) (JStr ''script''))"

definition newScript :: "Env \<Rightarrow> jsval \<Rightarrow> ScriptContent" where
  "newScript env body =
     \<lparr>sc_id = ''script_'' @ show_nat (now env), sc_content = body,
      sc_timestamp = isoNow env, sc_tool = ''script_writer''\<rparr>"

definition voiceoverFile :: "Env \<Rightarrow> jsval \<Rightarrow> ProjectFile" where
  "voiceoverFile env path =
     \<lparr>pf_id = ''voiceover_'' @ show_nat (now env), pf_name = JStr ''Generated Voiceover'',
      pf_type = JStr ''voiceover'', pf_path = path, pf_url = JUndefined, pf_size = JNum 0,
      pf_timestamp = isoNow env, pf_thumbnail = JUndefined, pf_duration = JUndefined,
      pf_source = JUndefined\<rparr>"

definition videoFile :: "Env \<Rightarrow> jsval \<Rightarrow> jsval \<Rightarrow> ProjectFile" where
  "videoFile env path thumb =
     \<lparr>pf_id = ''video_'' @ show_nat (now env), pf_name = JStr ''Final Video'',
      pf_type = JStr ''video'', pf_path = path, pf_url = JUndefined, pf_size = JNum 0,
      pf_timestamp = isoNow env, pf_thumbnail = thumb, pf_duration = JUndefined,
      pf_source = JUndefined\<rparr>"

definition readyPreview :: "Env \<Rightarrow> jsval \<Rightarrow> jsval \<Rightarrow> VideoPreview" where
  "readyPreview env path thumb =
     \<lparr>vp_id = ''preview_'' @ show_nat (now env), vp_path = path, vp_timestamp = isoNow env,
      vp_status = ''ready'', vp_thumbnail = thumb\<rparr>"

text \<open>
  \<^verbatim>\<open>case "tool_result"\<close>, in the order of its statements: the \<^verbatim>\<open>script_writer\<close> block,
  the \<^verbatim>\<open>broll_finder\<close> block (above), then the \<^verbatim>\<open>voiceover_generator\<close> block and the
  \<^verbatim>\<open>video_processor\<close> block with the two \<^verbatim>\<open>return\<close> statements.  \<open>msgs\<close> is the log
  after the first statement of \<^verbatim>\<open>handleMessage\<close>.
\<close>

definition scriptWriter :: "Env \<Rightarrow> RealtimeStore \<Rightarrow> jsval \<Rightarrow> jsval
    \<Rightarrow> ScriptContent list \<times> ProjectFile list" where
  "scriptWriter env state tool result =
     (if strict_eq tool (JStr ''script_writer'') \<and> truthy (getProp result ''script_text'')
      then (scripts state @ [newScript env (getProp result ''script_text'')],
            filter notScript (projectFiles state))
      else (scripts state, projectFiles state))"

definition toolResultFinish :: "Env \<Rightarrow> RealtimeStore \<Rightarrow> ToolResult \<Rightarrow> jsval \<Rightarrow> jsval
    \<Rightarrow> ScriptContent list \<Rightarrow> ProjectFile list \<Rightarrow> Message list \<Rightarrow> RealtimeStore" where
  "toolResultFinish env state toolResult tool result scripts1 files2 msgs2 =
     (let files3 =
            (if strict_eq tool (JStr ''voiceover_generator'')
                \<and> truthy (getProp result ''audio_path'')
             then files2 @ [voiceoverFile env (getProp result ''audio_path'')]
             else files2)
      in if strict_eq tool (JStr ''video_processor'') \<and> truthy (getProp result ''video_path'')
         then state
           \<lparr>toolResults := toolResults state @ [toolResult],
            messages := msgs2,
            projectFiles := files3 @ [videoFile env (getProp result ''video_path'')
                                         (getProp result ''thumbnail'')],
            scripts := scripts1,
            videoPreviews := videoPreviews state
              @ [readyPreview env (getProp result ''video_path'')
                   (getProp result ''thumbnail'')]\<rparr>
         else state
           \<lparr>toolResults := toolResults state @ [toolResult],
            messages := msgs2,
            projectFiles := files3,
            scripts := scripts1\<rparr>)"

definition toolResultOf :: "Message \<Rightarrow> ToolResult" where
  "toolResultOf msg =
     \<lparr>tr_tool = orElse (get msg ''tool'') (JStr ''''),
      tr_step = orElse (get msg ''step'') (JStr ''''),
      tr_result = orElse (get msg ''result'') (JObj []),
      tr_success = orElse (get msg ''success'') (JBool False),
      tr_error = get msg ''error''\<rparr>"

definition toolResultCase :: "Env \<Rightarrow> RealtimeStore \<Rightarrow> Message \<Rightarrow> Message list
    \<Rightarrow> exn + RealtimeStore" where
  "toolResultCase env state msg msgs =
     (let toolResult = toolResultOf msg;
          tool = get msg ''tool'';
          result = get msg ''result''
      in
      if truthy (get msg ''success'') \<and> truthy result then
        (case scriptWriter env state tool result of
           (scripts1, files1) \<Rightarrow>
             (case (if strict_eq tool (JStr ''broll_finder'') \<and> truthy result
                    then brollFinder env result files1 msgs else Inr (files1, msgs)) of
                Inl e \<Rightarrow> Inl e
              | Inr (files2, msgs2) \<Rightarrow>
                  Inr (toolResultFinish env state toolResult tool result scripts1 files2 msgs2)))
      else Inr (state
        \<lparr>toolResults := toolResults state @ [toolResult],
         messages := msgs,
         projectFiles := projectFiles state,
         scripts := scripts state\<rparr>))"

text \<open>
  \<^verbatim>\<open>case "gui_update"\<close>, block by block.  The \<^verbatim>\<open>script_created\<close> block logs
  \<^verbatim>\<open>msg.data.script_content.substring(0, 100)\<close> first, which throws unless the content is a
  string; in the \<^verbatim>\<open>media_downloaded\<close> block a truthy \<^verbatim>\<open>downloaded_files\<close> that is not an
  array has no \<^verbatim>\<open>forEach\<close>.
\<close>

definition scriptCreated :: "Env \<Rightarrow> RealtimeStore \<Rightarrow> jsval \<Rightarrow> jsval
    \<Rightarrow> exn + (ScriptContent list \<times> ProjectFile list)" where
  "scriptCreated env state update_type data =
     (if strict_eq update_type (JStr ''script_created'')
         \<and> truthy (optProp data ''script_content'')
      then (case getProp data ''script_content'' of
              JStr body \<Rightarrow>
                Inr (scripts state @ [newScript env (JStr body)],
                     filter notScript (projectFiles state))
            | _ \<Rightarrow> Inl TypeError)
      else Inr (scripts state, projectFiles state))"

definition mediaDownloaded :: "Env \<Rightarrow> jsval \<Rightarrow> jsval \<Rightarrow> ProjectFile list
    \<Rightarrow> exn + ProjectFile list" where
  "mediaDownloaded env update_type data files1 =
     (if strict_eq update_type (JStr ''media_downloaded'')
         \<and> truthy (optProp data ''downloaded_files'')
      then forEachPush (downloadedFile env) (getProp data ''downloaded_files'') files1
      else Inr files1)"

definition guiUpdateFinish :: "Env \<Rightarrow> RealtimeStore \<Rightarrow> Message list \<Rightarrow> jsval \<Rightarrow> jsval
    \<Rightarrow> ScriptContent list \<Rightarrow> ProjectFile list \<Rightarrow> RealtimeStore" where
  "guiUpdateFinish env state msgs update_type data updatedScripts files2 =
     (let files3 =
            (if strict_eq update_type (JStr ''voiceover_created'')
                \<and> truthy (optProp data ''voiceover_file'')
             then files2 @ [voiceoverFile env (getProp data ''voiceover_file'')]
             else files2)
      in if strict_eq update_type (JStr ''video_created'')
            \<and> truthy (optProp data ''final_video'')
         then state
           \<lparr>messages := msgs,
            scripts := updatedScripts,
            projectFiles := files3 @ [videoFile env (getProp data ''final_video'') JUndefined],
            videoPreviews := videoPreviews state
              @ [readyPreview env (getProp data ''final_video'')
                   (getProp data ''thumbnail'')]\<rparr>
         else state
           \<lparr>messages := msgs,
            scripts := updatedScripts,
            projectFiles := files3\<rparr>)"

definition guiUpdateCase :: "Env \<Rightarrow> RealtimeStore \<Rightarrow> Message \<Rightarrow> Message list
    \<Rightarrow> exn + RealtimeStore" where
  "guiUpdateCase env state msg msgs =
     (let update_type = get msg ''update_type'';
          data = get msg ''data''
      in case scriptCreated env state update_type data of
           Inl e \<Rightarrow> Inl e
         | Inr (updatedScripts, files1) \<Rightarrow>
             (case mediaDownloaded env update_type data files1 of
                Inl e \<Rightarrow> Inl e
              | Inr files2 \<Rightarrow>
                  Inr (guiUpdateFinish env state msgs update_type data updatedScripts files2)))"

text \<open>\<^verbatim>\<open>case "adaptive"\<close> and \<^verbatim>\<open>case "context_update"\<close>, which have the same body.\<close>

definition mergePreferences :: "UserContext \<Rightarrow> Message \<Rightarrow> UserContext" where
  "mergePreferences ctx msg =
     (if truthy (get msg ''preferences'')
      then ctx\<lparr>preferences :=
             JObj (spread (entries (preferences ctx)) (entries (get msg ''preferences'')))\<rparr>
      else ctx)"

subsection \<open>handleMessage\<close>

text \<open>
  The argument has the declared type \<^verbatim>\<open>Message\<close>, an object.  The updater that
  \<^verbatim>\<open>handleMessage\<close> passes to \<^verbatim>\<open>set\<close> returns the whole next state; when it throws, the
  store keeps its state and the exception reaches the caller, so the result is \<open>Inl\<close>.
\<close>

definition toolCallOf :: "Message \<Rightarrow> ToolCall" where
  "toolCallOf msg =
     \<lparr>tc_tool = orElse (get msg ''tool'') (JStr ''''),
      tc_args = orElse (get msg ''args'') (JObj []),
      tc_step = orElse (get msg ''step'') (JStr ''''),
      tc_description = orElse (get msg ''description'') (JStr '''')\<rparr>"

definition passthrough :: "string list" where
  "passthrough =
     [''ai_message'', ''thinking'', ''reasoning'', ''tool_execution_start'',
      ''tool_execution_complete'', ''tool_progress'', ''decision_context'',
      ''decision_option'', ''decision_made'', ''approval_received'', ''workflow_complete'',
      ''informational'', ''interactive'']"

definition handleMessage :: "Env \<Rightarrow> RealtimeStore \<Rightarrow> Message \<Rightarrow> exn + RealtimeStore" where
  "handleMessage env state msg =
     (let msgs = logUpdate (messages state) msg in
      case get msg ''type'' of
        JStr t \<Rightarrow>
          (if t \<in> set passthrough then Inr (state\<lparr>messages := msgs\<rparr>)
           else if t = ''tool_call'' then
             Inr (state\<lparr>toolCalls := toolCalls state @ [toolCallOf msg], messages := msgs\<rparr>)
           else if t = ''tool_result'' then toolResultCase env state msg msgs
           else if t = ''progress'' then
             Inr (state
               \<lparr>progress :=
                  \<lparr>percent = coalesce (get msg ''percent'') (percent (progress state)),
                   status = orElse (get msg ''status'') (JStr ''''),
                   step = orElse (get msg ''step'') (JStr '''')\<rparr>,
                messages := msgs\<rparr>)
           else if t = ''error'' then
             Inr (state
               \<lparr>error := orElse (get msg ''detail'')
                           (orElse (get msg ''message'') (JStr ''Unknown error'')),
                messages := msgs\<rparr>)
           else if t = ''connection_established'' then
             Inr (state\<lparr>connectionStatus := Connected, messages := msgs\<rparr>)
           else if t = ''adaptive'' \<or> t = ''context_update'' then
             Inr (state
               \<lparr>messages := msgs,
                userContext := mergePreferences (userContext state) msg\<rparr>)
           else if t = ''gui_update'' then guiUpdateCase env state msg msgs
           else Inr (state\<lparr>messages := msgs\<rparr>))
      | _ \<Rightarrow> Inr (state\<lparr>messages := msgs\<rparr>))"

text \<open>
  The condition under which the \<^verbatim>\<open>tool_result\<close> case reaches
  \<^verbatim>\<open>messages.push({... type: 'informational'})\<close>, and what a dispatch pushes after the
  message itself.
\<close>

definition brollNoteDue :: "Message \<Rightarrow> bool" where
  "brollNoteDue msg =
     (get msg ''type'' = JStr ''tool_result''
      \<and> truthy (get msg ''success'') \<and> truthy (get msg ''result'')
      \<and> strict_eq (get msg ''tool'') (JStr ''broll_finder'')
      \<and> truthy (getProp (get msg ''result'') ''message''))"

definition brollNotes :: "Env \<Rightarrow> Message \<Rightarrow> Message list" where
  "brollNotes env msg = (if brollNoteDue msg then [brollNote env (get msg ''result'')] else [])"

text \<open>
  Payload shapes on which the two loops of the \<^verbatim>\<open>broll_finder\<close> block run to their end:
  \<^verbatim>\<open>downloaded_files\<close> is falsy or an array without \<^verbatim>\<open>null\<close> entries; \<^verbatim>\<open>file_paths\<close> is
  falsy or an array of strings, and the \<^verbatim>\<open>file_type\<close> of the metadata paired with each
  path is absent or a string.
\<close>

definition isString :: "jsval \<Rightarrow> bool" where
  "isString v = (case v of JStr s \<Rightarrow> True | _ \<Rightarrow> False)"

definition filesOk :: "jsval \<Rightarrow> bool" where
  "filesOk df = (case df of JArr fs \<Rightarrow> list_all (\<lambda>f. \<not> nullish f) fs | _ \<Rightarrow> \<not> truthy df)"

definition fileTypeOk :: "jsval \<Rightarrow> nat \<Rightarrow> bool" where
  "fileTypeOk result i =
     (let ft = getProp (orElse (optIndex (getProp result ''metadata'') i) (JObj [])) ''file_type''
      in nullish ft \<or> isString ft)"

definition pathsOk :: "jsval \<Rightarrow> bool" where
  "pathsOk result =
     (case getProp result ''file_paths'' of
        JArr ps \<Rightarrow> list_all (\<lambda>i. isString (ps ! i) \<and> fileTypeOk result i) [0..<length ps]
      | fp \<Rightarrow> \<not> truthy fp)"

text \<open>The two local mutators that the connection hook calls.\<close>

definition setConnectionStatus :: "ConnectionStatus \<Rightarrow> RealtimeStore \<Rightarrow> RealtimeStore" where
  "setConnectionStatus st state = state\<lparr>connectionStatus := st\<rparr>"

definition setError :: "jsval \<Rightarrow> RealtimeStore \<Rightarrow> RealtimeStore" where
  "setError e state = state\<lparr>error := e\<rparr>"

text \<open>
  The store side of \<^verbatim>\<open>ws.onmessage\<close> for a frame that decodes to an object: the dispatch
  runs inside \<^verbatim>\<open>try\<close>, and the \<^verbatim>\<open>catch\<close> reports through \<^verbatim>\<open>setError\<close>.
\<close>

definition onmessage :: "Env \<Rightarrow> RealtimeStore \<Rightarrow> Message \<Rightarrow> RealtimeStore" where
  "onmessage env state data =
     (case handleMessage env state data of
        Inr state' \<Rightarrow> state'
      | Inl e \<Rightarrow> setError (JStr ''Failed to parse WebSocket message'') state)"

text \<open>A fixed environment for the concrete runs below.\<close>

definition env0 :: Env where
  "env0 = \<lparr>now = 0, isoNow = ''1970-01-01T00:00:00.000Z'', random = (\<lambda>k. ''0.5''),
           toLowerCase = (\<lambda>s. s), toNumber = (\<lambda>v. None)\<rparr>"

section \<open>The connection hook (useWebSocket)\<close>

text \<open>
  The refs and the state of the hook, the sockets it has constructed (a reference to a
  socket is its position in \<open>sockets\<close>), the timeouts that are pending, and the store.
  A pending timeout runs the \<^verbatim>\<open>connect\<close> closure that scheduled it, which has captured
  \<^verbatim>\<open>wsUrl\<close>.  Whether the browser accepts a URL is a parameter.
\<close>

datatype ReadyState = CONNECTING | OPEN | CLOSING | CLOSED

record WebSocket =
  url :: string
  readyState :: ReadyState

record Timeout =
  handle :: nat
  delay :: nat
  callbackUrl :: string

record Hook =
  sessionIdRef :: string
  wsRef :: "nat option"
  reconnectRef :: "nat option"
  connected :: bool
  sockets :: "WebSocket list"
  timeouts :: "Timeout list"
  nextHandle :: nat
  store :: RealtimeStore

text \<open>\<^verbatim>\<open>ws.close()\<close>: a socket that is connecting or open starts closing.\<close>

definition closeSocket :: "WebSocket \<Rightarrow> WebSocket" where
  "closeSocket ws =
     (if readyState ws = CLOSING \<or> readyState ws = CLOSED then ws
      else ws\<lparr>readyState := CLOSING\<rparr>)"

text \<open>\<^verbatim>\<open>new WebSocket(wsUrl)\<close> and the assignment to \<^verbatim>\<open>wsRef.current\<close>.\<close>

definition newSocket :: "(string \<Rightarrow> bool) \<Rightarrow> string \<Rightarrow> Hook \<Rightarrow> exn + Hook" where
  "newSocket validUrl wsUrl h =
     (if validUrl wsUrl
      then Inr (h\<lparr>sockets := sockets h @ [\<lparr>url = wsUrl, readyState = CONNECTING\<rparr>],
                  wsRef := Some (length (sockets h))\<rparr>)
      else Inl SyntaxError)"

definition connect :: "(string \<Rightarrow> bool) \<Rightarrow> string \<Rightarrow> Hook \<Rightarrow> exn + Hook" where
  "connect validUrl wsUrl h =
     (if sessionIdRef h = [] then Inr h
      else case wsRef h of
        None \<Rightarrow> newSocket validUrl wsUrl h
      | Some i \<Rightarrow>
          if readyState (sockets h ! i) = OPEN then Inr h
          else newSocket validUrl wsUrl
                 (h\<lparr>sockets := (sockets h)[i := closeSocket (sockets h ! i)]\<rparr>))"

text \<open>The handlers that \<^verbatim>\<open>connect\<close> installs on the socket.\<close>

definition onopen :: "Hook \<Rightarrow> Hook" where
  "onopen h = h\<lparr>connected := True, store := setConnectionStatus Connected (store h)\<rparr>"

definition onclose :: "string \<Rightarrow> nat \<Rightarrow> Hook \<Rightarrow> Hook" where
  "onclose wsUrl code h =
     (let h1 = h\<lparr>connected := False, store := setConnectionStatus Disconnected (store h)\<rparr>
      in if code \<noteq> 1000 \<and> sessionIdRef h1 \<noteq> []
         then h1\<lparr>store := setConnectionStatus Reconnecting (store h1),
                 reconnectRef := Some (nextHandle h1),
                 timeouts := timeouts h1
                   @ [\<lparr>handle = nextHandle h1, delay = 2000, callbackUrl = wsUrl\<rparr>],
                 nextHandle := nextHandle h1 + 1\<rparr>
         else h1)"

definition onerror :: "Hook \<Rightarrow> Hook" where
  "onerror h = h\<lparr>store := setError (JStr ''WebSocket error'') (store h)\<rparr>"

text \<open>A pending timeout fires: it leaves the list and its callback, \<^verbatim>\<open>connect\<close>, runs.\<close>

definition timeoutFires :: "(string \<Rightarrow> bool) \<Rightarrow> Timeout \<Rightarrow> Hook \<Rightarrow> exn + Hook" where
  "timeoutFires validUrl t h =
     connect validUrl (callbackUrl t) (h\<lparr>timeouts := remove1 t (timeouts h)\<rparr>)"

text \<open>
  The browser opens socket \<open>i\<close>: its \<^verbatim>\<open>readyState\<close> becomes \<^verbatim>\<open>OPEN\<close> and \<^verbatim>\<open>onopen\<close> runs.
  The live connections of a hook are its sockets that are connecting or open.  A hook
  right after its first render has made no socket yet.
\<close>

definition socketOpens :: "nat \<Rightarrow> Hook \<Rightarrow> Hook" where
  "socketOpens i h =
     onopen (h\<lparr>sockets := (sockets h)[i := (sockets h ! i)\<lparr>readyState := OPEN\<rparr>]\<rparr>)"

definition liveSockets :: "Hook \<Rightarrow> WebSocket list" where
  "liveSockets h =
     filter (\<lambda>ws. readyState ws = CONNECTING \<or> readyState ws = OPEN) (sockets h)"

definition initialHook :: "string \<Rightarrow> Hook" where
  "initialHook sessionId =
     \<lparr>sessionIdRef = sessionId, wsRef = None, reconnectRef = None, connected = False,
      sockets = [], timeouts = [], nextHandle = 1, store = initialState\<rparr>"

section \<open>The streaming hook (useStreamingMessage)\<close>

text \<open>
  \<^verbatim>\<open>message.content || message.message || message.detail || ''\<close>.  The three fields have
  the declared type \<^verbatim>\<open>string\<close>; the functions of the hook below take the string that this
  expression evaluates to as \<open>ft\<close>.
\<close>

definition fullText :: "Message \<Rightarrow> jsval" where
  "fullText message =
     orElse (get message ''content'')
       (orElse (get message ''message'') (orElse (get message ''detail'') (JStr '''')))"

text \<open>
  The interval that \<^verbatim>\<open>startStreaming\<close> sets is its closure: the text it captured and its
  variable \<^verbatim>\<open>currentIndex\<close>.  \<open>streamIntervalRef\<close> is \<open>None\<close> for \<^verbatim>\<open>null\<close>.
  \<open>completions\<close> counts the calls of \<^verbatim>\<open>onComplete\<close>.
\<close>

record Interval =
  captured :: string
  currentIndex :: nat

record Streaming =
  displayedText :: string
  isStreaming :: bool
  showCursor :: bool
  isComplete :: bool
  streamIntervalRef :: "Interval option"
  completions :: nat

definition initialStreaming :: Streaming where
  "initialStreaming =
     \<lparr>displayedText = [], isStreaming = False, showCursor = False, isComplete = False,
      streamIntervalRef = None, completions = 0\<rparr>"

definition startStreaming :: "Message \<Rightarrow> string \<Rightarrow> Streaming \<Rightarrow> Streaming" where
  "startStreaming message ft st =
     (if \<not> strict_eq (get message ''type'') (JStr ''ai_message'') \<or> ft = [] \<or> isStreaming st
      then st
      else st\<lparr>isStreaming := True, displayedText := [], showCursor := True,
              isComplete := False,
              streamIntervalRef := Some \<lparr>captured = ft, currentIndex = 0\<rparr>\<rparr>)"

text \<open>
  What \<^verbatim>\<open>prev + fullText[i]\<close> appends: the code unit at \<open>i\<close>, and the text
  \<^verbatim>\<open>undefined\<close> when \<open>i\<close> is past the end.
\<close>

definition indexed :: "string \<Rightarrow> nat \<Rightarrow> string" where
  "indexed s i = (if i < length s then [s ! i] else ''undefined'')"

text \<open>
  One run of the interval callback and the render that follows it; nothing runs when no
  interval is set.  The callback hands \<^verbatim>\<open>setDisplayedText\<close> the updater
  \<^verbatim>\<open>prev => prev + fullText[currentIndex]\<close> and then increments \<^verbatim>\<open>currentIndex\<close>.  The
  updater is a closure over that variable and React runs it when it renders, after the
  callback has returned, so it reads the index after the increment.
\<close>

definition tick :: "Streaming \<Rightarrow> Streaming" where
  "tick st =
     (case streamIntervalRef st of
        None \<Rightarrow> st
      | Some iv \<Rightarrow>
          if currentIndex iv < length (captured iv)
          then st\<lparr>displayedText := displayedText st @ indexed (captured iv) (currentIndex iv + 1),
                  streamIntervalRef := Some (iv\<lparr>currentIndex := currentIndex iv + 1\<rparr>)\<rparr>
          else st\<lparr>streamIntervalRef := None, isStreaming := False, showCursor := False,
                  isComplete := True, completions := completions st + 1\<rparr>)"

definition stopStreaming :: "string \<Rightarrow> Streaming \<Rightarrow> Streaming" where
  "stopStreaming ft st =
     st\<lparr>streamIntervalRef := None, isStreaming := False, showCursor := False,
        displayedText := ft, isComplete := True\<rparr>"

text \<open>The effect "Handle message updates", which runs after the first render.\<close>

definition messageEffect :: "Message \<Rightarrow> string \<Rightarrow> Streaming \<Rightarrow> Streaming" where
  "messageEffect message ft st =
     (if strict_eq (get message ''type'') (JStr ''ai_message'') \<and> ft \<noteq> [] then
        (if truthy (get message ''is_partial'') then
           st\<lparr>displayedText := ft, showCursor := True, isStreaming := True,
              isComplete := False\<rparr>
         else if truthy (get message ''is_complete'') then
           st\<lparr>displayedText := ft, isStreaming := False, showCursor := False,
              isComplete := True, completions := completions st + 1\<rparr>
         else if \<not> isStreaming st \<and> \<not> isComplete st then startStreaming message ft st
         else st)
      else if \<not> strict_eq (get message ''type'') (JStr ''ai_message'') then
        st\<lparr>displayedText := ft, isStreaming := False, showCursor := False,
           isComplete := True\<rparr>
      else st)"

section \<open>Facts about objects and the log\<close>

lemma map_of_assign: "map_of (assign k v m) = (map_of m)(k \<mapsto> v)"
  by (induction m) auto

lemma keys_assign: "fst ` set (assign k v m) = insert k (fst ` set m)"
  by (induction m) auto

lemma distinct_assign: "distinct (map fst m) \<Longrightarrow> distinct (map fst (assign k v m))"
  by (induction m) (auto simp: keys_assign)

lemma fold_assign:
  "distinct (map fst acc) \<Longrightarrow>
     distinct (map fst (fold (\<lambda>(k, v). assign k v) xs acc))
     \<and> map_of (fold (\<lambda>(k, v). assign k v) xs acc) = map_of acc ++ map_of (rev xs)"
proof (induction xs arbitrary: acc)
  case Nil
  then show ?case by simp
next
  case (Cons x xs)
  obtain k v where x: "x = (k, v)" by (cases x)
  have d: "distinct (map fst (assign k v acc))"
    using Cons.prems by (rule distinct_assign)
  have e: "(map_of acc)(k \<mapsto> v) ++ map_of (rev xs) = map_of acc ++ map_of (rev (x # xs))"
    by (rule ext) (simp add: x map_add_def split: option.splits)
  from Cons.IH [OF d] show ?case
    by (simp only: fold_simps x case_prod_conv map_of_assign e o_apply)
qed

lemma map_of_rev_distinct: "distinct (map fst m) \<Longrightarrow> map_of (rev m) = map_of m"
  by (simp add: map_of_inject_set distinct_map)

lemma get_spread:
  "get (spread a b) k = (case map_of (rev b) k of None \<Rightarrow> get a k | Some v \<Rightarrow> v)"
proof -
  have f: "distinct (map fst (spread a b))
        \<and> map_of (spread a b) = map_of (rev (a @ b))"
    unfolding spread_def using fold_assign [of "[]" "a @ b"] by simp
  then have "map_of (rev (spread a b)) = map_of (rev a) ++ map_of (rev b)"
    by (simp add: map_of_rev_distinct)
  then show ?thesis
    by (simp add: get_def map_add_def split: option.splits)
qed

lemma get_absent: "k \<notin> fst ` set m \<Longrightarrow> get m k = JUndefined"
  by (simp add: get_def map_of_eq_None_iff [THEN iffD2])

lemma map_of_rev_None: "(map_of (rev b) k = None) = (k \<notin> fst ` set b)"
  by (simp add: map_of_eq_None_iff)

lemma get_spread_fields:
  "get (spread a b) k = (if k \<in> fst ` set b then get b k else get a k)"
proof (cases "map_of (rev b) k")
  case None
  then have "k \<notin> fst ` set b" by (simp add: map_of_rev_None)
  with None show ?thesis by (simp add: get_spread)
next
  case (Some v)
  then have "k \<in> fst ` set b" using map_of_rev_None [of b k] by simp
  with Some show ?thesis by (simp add: get_spread) (simp add: get_def)
qed

lemma keys_fold_assign:
  "fst ` set (fold (\<lambda>(k, v). assign k v) xs acc) = fst ` set xs \<union> fst ` set acc"
proof (induction xs arbitrary: acc)
  case Nil
  then show ?case by simp
next
  case (Cons x xs)
  obtain k v where x: "x = (k, v)" by (cases x)
  show ?case
    by (simp add: x Cons.IH keys_assign)
qed

lemma keys_spread: "fst ` set (spread a b) = fst ` set a \<union> fst ` set b"
  by (simp add: spread_def keys_fold_assign image_Un Un_commute)

lemma findIndex_Some:
  "findIndex P xs = Some i \<Longrightarrow> i < length xs \<and> P (xs ! i) \<and> (\<forall>j<i. \<not> P (xs ! j))"
proof (induction xs arbitrary: i)
  case Nil
  then show ?case by simp
next
  case (Cons x xs)
  show ?case
  proof (cases "P x")
    case True
    with Cons.prems show ?thesis by simp
  next
    case False
    with Cons.prems obtain i' where i': "findIndex P xs = Some i'" "i = Suc i'"
      by (auto split: option.splits)
    from Cons.IH [OF i'(1)] False i'(2) show ?thesis
      by (auto simp: nth_Cons split: nat.splits)
  qed
qed

lemma findIndex_None: "(findIndex P xs = None) = (\<forall>x\<in>set xs. \<not> P x)"
  by (induction xs) (auto split: option.splits)

lemma findIndex_first:
  "i < length xs \<Longrightarrow> P (xs ! i) \<Longrightarrow> \<forall>j<i. \<not> P (xs ! j) \<Longrightarrow> findIndex P xs = Some i"
proof -
  assume a: "i < length xs" "P (xs ! i)" "\<forall>j<i. \<not> P (xs ! j)"
  then have "findIndex P xs \<noteq> None"
    by (auto simp: findIndex_None)
  then obtain i' where i': "findIndex P xs = Some i'" by auto
  from findIndex_Some [OF i'] a have "i' = i"
    by (meson linorder_neqE_nat)
  with i' show ?thesis by simp
qed

lemma strict_eq_JStr [simp]: "strict_eq v (JStr s) = (v = JStr s)"
  by (cases v) auto

lemma brollFinder_messages:
  "brollFinder env r files msgs = Inr (files', msgs') \<Longrightarrow>
     msgs' = (if truthy (getProp r ''message'') then msgs @ [brollNote env r] else msgs)"
  unfolding brollFinder_def Let_def
  by (simp split: sum.splits if_splits)

lemma handleMessage_tool_result:
  "get msg ''type'' = JStr ''tool_result'' \<Longrightarrow>
     handleMessage env state msg = toolResultCase env state msg (logUpdate (messages state) msg)"
  by (simp add: handleMessage_def passthrough_def)

lemma handleMessage_gui_update:
  "get msg ''type'' = JStr ''gui_update'' \<Longrightarrow>
     handleMessage env state msg = guiUpdateCase env state msg (logUpdate (messages state) msg)"
  by (simp add: handleMessage_def passthrough_def)

lemma messages_toolResultFinish [simp]:
  "messages (toolResultFinish env state tr tool result scripts1 files2 msgs2) = msgs2"
  by (simp add: toolResultFinish_def Let_def)

lemma messages_guiUpdateFinish [simp]:
  "messages (guiUpdateFinish env state msgs ut data us files2) = msgs"
  by (simp add: guiUpdateFinish_def Let_def)

lemma toolResultCase_messages:
  assumes "toolResultCase env state msg msgs = Inr state'"
  shows "messages state' =
     msgs @ (if truthy (get msg ''success'') \<and> truthy (get msg ''result'')
                \<and> get msg ''tool'' = JStr ''broll_finder''
                \<and> truthy (getProp (get msg ''result'') ''message'')
             then [brollNote env (get msg ''result'')] else [])"
proof (cases "truthy (get msg ''success'') \<and> truthy (get msg ''result'')")
  case False
  with assms show ?thesis
    unfolding toolResultCase_def Let_def by auto
next
  case ok: True
  obtain scripts1 files1 where
    sw: "scriptWriter env state (get msg ''tool'') (get msg ''result'') = (scripts1, files1)"
    by (cases "scriptWriter env state (get msg ''tool'') (get msg ''result'')")
  show ?thesis
  proof (cases "get msg ''tool'' = JStr ''broll_finder''")
    case True
    with ok sw assms obtain files2 msgs2 where
      b: "brollFinder env (get msg ''result'') files1 msgs = Inr (files2, msgs2)"
      and m: "messages state' = msgs2"
      unfolding toolResultCase_def Let_def
      by (auto split: sum.splits)
    from brollFinder_messages [OF b] m ok True show ?thesis by simp
  next
    case False
    with ok sw assms show ?thesis
      unfolding toolResultCase_def Let_def
      by auto
  qed
qed

lemma guiUpdateCase_messages:
  "guiUpdateCase env state msg msgs = Inr state' \<Longrightarrow> messages state' = msgs"
  unfolding guiUpdateCase_def Let_def
  by (auto split: sum.splits prod.splits)

lemma handleMessage_other:
  assumes "get msg ''type'' \<noteq> JStr ''tool_result''" "get msg ''type'' \<noteq> JStr ''gui_update''"
  shows "\<exists>state'. handleMessage env state msg = Inr state'
           \<and> messages state' = logUpdate (messages state) msg"
proof (cases "get msg ''type''")
  case (JStr t)
  with assms have "t \<noteq> ''tool_result''" "t \<noteq> ''gui_update''" by auto
  with JStr show ?thesis
    by (simp add: handleMessage_def Let_def)
qed (simp_all add: handleMessage_def Let_def)

lemma handleMessage_messages:
  assumes "handleMessage env state msg = Inr state'"
  shows "messages state' = logUpdate (messages state) msg @ brollNotes env msg"
proof (cases "get msg ''type'' = JStr ''tool_result''")
  case True
  with assms have "toolResultCase env state msg (logUpdate (messages state) msg) = Inr state'"
    by (simp add: handleMessage_tool_result)
  from toolResultCase_messages [OF this] True show ?thesis
    by (simp add: brollNotes_def brollNoteDue_def)
next
  case nt: False
  show ?thesis
  proof (cases "get msg ''type'' = JStr ''gui_update''")
    case True
    with assms have "guiUpdateCase env state msg (logUpdate (messages state) msg) = Inr state'"
      by (simp add: handleMessage_gui_update)
    from guiUpdateCase_messages [OF this] True show ?thesis
      by (simp add: brollNotes_def brollNoteDue_def)
  next
    case False
    from handleMessage_other [OF nt False, of env state] assms nt show ?thesis
      by (auto simp: brollNotes_def brollNoteDue_def)
  qed
qed

lemma logUpdate_first:
  assumes "truthy (get msg ''message_id'')" "truthy (get msg ''is_partial'')"
    "i < length msgs"
    "strict_eq (get (msgs ! i) ''message_id'') (get msg ''message_id'')"
    "\<forall>j<i. \<not> strict_eq (get (msgs ! j) ''message_id'') (get msg ''message_id'')"
  shows "logUpdate msgs msg = msgs[i := spread (msgs ! i) msg]"
proof -
  have "findIndex (\<lambda>m. strict_eq (get m ''message_id'') (get msg ''message_id'')) msgs = Some i"
    using assms(3-5) by (intro findIndex_first) auto
  with assms(1,2) show ?thesis by (simp add: logUpdate_def)
qed

lemma logUpdate_append:
  assumes "\<not> truthy (get msg ''message_id'') \<or> \<not> truthy (get msg ''is_partial'')
     \<or> (\<forall>m\<in>set msgs. \<not> strict_eq (get m ''message_id'') (get msg ''message_id''))"
  shows "logUpdate msgs msg = msgs @ [msg]"
proof (cases "truthy (get msg ''message_id'') \<and> truthy (get msg ''is_partial'')")
  case True
  with assms have "findIndex (\<lambda>m. strict_eq (get m ''message_id'') (get msg ''message_id'')) msgs = None"
    by (auto simp: findIndex_None)
  with True show ?thesis by (simp add: logUpdate_def)
next
  case False
  then show ?thesis by (auto simp: logUpdate_def)
qed

section \<open>The append-or-replace rule of the log\<close>

text \<open>
  Claim C1, as the code has it.  A dispatch of a message whose type is neither
  \<^verbatim>\<open>tool_result\<close> nor \<^verbatim>\<open>gui_update\<close> always completes.  Whenever a dispatch completes:
  a message with a truthy \<^verbatim>\<open>message_id\<close> and a truthy \<^verbatim>\<open>is_partial\<close> replaces the
  \<^emph>\<open>earliest\<close> log entry that shares its \<^verbatim>\<open>message_id\<close> (the entry at the least such
  index) by shallow merge, where every field present in the new message takes its value
  and every other field keeps the value of the prior entry; a message that lacks one of
  the two, or whose \<^verbatim>\<open>message_id\<close> no entry shares, is appended to the log.  In both cases
  the informational entry of a \<^verbatim>\<open>broll_finder\<close> result follows when it is due.
\<close>

theorem handleMessage_log:
  "(get msg ''type'' \<noteq> JStr ''tool_result'' \<and> get msg ''type'' \<noteq> JStr ''gui_update''
      \<longrightarrow> (\<exists>state'. handleMessage env state msg = Inr state'))
   \<and> (\<forall>state'. handleMessage env state msg = Inr state' \<longrightarrow>
        (\<forall>i. truthy (get msg ''message_id'') \<and> truthy (get msg ''is_partial'')
              \<and> i < length (messages state)
              \<and> strict_eq (get (messages state ! i) ''message_id'') (get msg ''message_id'')
              \<and> (\<forall>j<i. \<not> strict_eq (get (messages state ! j) ''message_id'')
                              (get msg ''message_id''))
           \<longrightarrow> messages state'
                 = (messages state)[i := spread (messages state ! i) msg] @ brollNotes env msg
               \<and> (\<forall>k. get (spread (messages state ! i) msg) k
                        = (if k \<in> fst ` set msg then get msg k
                           else get (messages state ! i) k)))
        \<and> (\<not> truthy (get msg ''message_id'') \<or> \<not> truthy (get msg ''is_partial'')
            \<or> (\<forall>m\<in>set (messages state).
                   \<not> strict_eq (get m ''message_id'') (get msg ''message_id''))
           \<longrightarrow> messages state' = messages state @ [msg] @ brollNotes env msg))"
proof (intro conjI impI allI)
  assume "get msg ''type'' \<noteq> JStr ''tool_result'' \<and> get msg ''type'' \<noteq> JStr ''gui_update''"
  then show "\<exists>state'. handleMessage env state msg = Inr state'"
    using handleMessage_other [of msg env state] by blast
next
  fix state' i
  assume h: "handleMessage env state msg = Inr state'"
    and u: "truthy (get msg ''message_id'') \<and> truthy (get msg ''is_partial'')
              \<and> i < length (messages state)
              \<and> strict_eq (get (messages state ! i) ''message_id'') (get msg ''message_id'')
              \<and> (\<forall>j<i. \<not> strict_eq (get (messages state ! j) ''message_id'')
                              (get msg ''message_id''))"
  from u have "logUpdate (messages state) msg = (messages state)[i := spread (messages state ! i) msg]"
    by (intro logUpdate_first) blast+
  with handleMessage_messages [OF h]
  show "messages state' = (messages state)[i := spread (messages state ! i) msg] @ brollNotes env msg"
    by simp
next
  fix state' i k
  show "get (spread (messages state ! i) msg) k
          = (if k \<in> fst ` set msg then get msg k else get (messages state ! i) k)"
    by (rule get_spread_fields)
next
  fix state'
  assume h: "handleMessage env state msg = Inr state'"
    and a: "\<not> truthy (get msg ''message_id'') \<or> \<not> truthy (get msg ''is_partial'')
            \<or> (\<forall>m\<in>set (messages state).
                   \<not> strict_eq (get m ''message_id'') (get msg ''message_id''))"
  from logUpdate_append [OF a] handleMessage_messages [OF h]
  show "messages state' = messages state @ [msg] @ brollNotes env msg"
    by simp
qed

text \<open>
  The theorem at two concrete dispatches: a partial update for \<^verbatim>\<open>m1\<close> into a log whose
  two entries both carry \<^verbatim>\<open>m1\<close>, and a message without \<^verbatim>\<open>message_id\<close> into the empty log.
\<close>

theorem handleMessage_log_witness:
  "truthy (get [(''message_id'', JStr ''m1''), (''is_partial'', JBool True),
                (''content'', JStr ''Hello!'')] ''message_id'')
   \<and> truthy (get [(''message_id'', JStr ''m1''), (''is_partial'', JBool True),
                  (''content'', JStr ''Hello!'')] ''is_partial'')
   \<and> handleMessage env0
       (initialState\<lparr>messages :=
          [[(''message_id'', JStr ''m1''), (''content'', JStr ''Hel''),
            (''type'', JStr ''ai_message'')],
           [(''message_id'', JStr ''m1''), (''content'', JStr ''Hello'')]]\<rparr>)
       [(''message_id'', JStr ''m1''), (''is_partial'', JBool True), (''content'', JStr ''Hello!'')]
     = Inr (initialState\<lparr>messages :=
          [[(''message_id'', JStr ''m1''), (''content'', JStr ''Hello!''),
            (''type'', JStr ''ai_message''), (''is_partial'', JBool True)],
           [(''message_id'', JStr ''m1''), (''content'', JStr ''Hello'')]]\<rparr>)
   \<and> \<not> truthy (get [(''content'', JStr ''Hello'')] ''message_id'')
   \<and> handleMessage env0 initialState [(''content'', JStr ''Hello'')]
       = Inr (initialState\<lparr>messages := [[(''content'', JStr ''Hello'')]]\<rparr>)"
  using handleMessage_log [of "[(''message_id'', JStr ''m1''), (''is_partial'', JBool True),
      (''content'', JStr ''Hello!'')]" env0
      "initialState\<lparr>messages :=
        [[(''message_id'', JStr ''m1''), (''content'', JStr ''Hel''),
          (''type'', JStr ''ai_message'')],
         [(''message_id'', JStr ''m1''), (''content'', JStr ''Hello'')]]\<rparr>"]
    handleMessage_log [of "[(''content'', JStr ''Hello'')]" env0 initialState]
  by (simp add: handleMessage_def logUpdate_def get_def spread_def passthrough_def
        initialState_def Let_def)

text \<open>
  Against C1 as stated ("replaces the most recent log entry sharing that
  \<^verbatim>\<open>message_id\<close>"): a partial chunk, the final message with the same id (appended, since it
  is not partial), then one more partial chunk.  The chunk is merged into the first entry;
  the most recent entry with that id, the second, is left as it was, so the log is not
  the one in which the second entry has taken the chunk.
\<close>

theorem log_most_recent_counterexample:
  "messages (foldl (onmessage env0) initialState
     [[(''type'', JStr ''ai_message''), (''message_id'', JStr ''m1''),
       (''is_partial'', JBool True), (''content'', JStr ''Hel'')],
      [(''type'', JStr ''ai_message''), (''message_id'', JStr ''m1''),
       (''content'', JStr ''Hello'')],
      [(''type'', JStr ''ai_message''), (''message_id'', JStr ''m1''),
       (''is_partial'', JBool True), (''content'', JStr ''Hello!'')]])
   = [[(''type'', JStr ''ai_message''), (''message_id'', JStr ''m1''),
       (''is_partial'', JBool True), (''content'', JStr ''Hello!'')],
      [(''type'', JStr ''ai_message''), (''message_id'', JStr ''m1''),
       (''content'', JStr ''Hello'')]]
   \<and> messages (foldl (onmessage env0) initialState
     [[(''type'', JStr ''ai_message''), (''message_id'', JStr ''m1''),
       (''is_partial'', JBool True), (''content'', JStr ''Hel'')],
      [(''type'', JStr ''ai_message''), (''message_id'', JStr ''m1''),
       (''content'', JStr ''Hello'')],
      [(''type'', JStr ''ai_message''), (''message_id'', JStr ''m1''),
       (''is_partial'', JBool True), (''content'', JStr ''Hello!'')]])
   \<noteq> [[(''type'', JStr ''ai_message''), (''message_id'', JStr ''m1''),
       (''is_partial'', JBool True), (''content'', JStr ''Hel'')],
      [(''type'', JStr ''ai_message''), (''message_id'', JStr ''m1''),
       (''content'', JStr ''Hello!''), (''is_partial'', JBool True)]]"
  by (simp add: onmessage_def handleMessage_def logUpdate_def get_def spread_def
        passthrough_def initialState_def Let_def)

section \<open>Progress\<close>

lemma progress_case:
  "get msg ''type'' = JStr ''progress'' \<Longrightarrow>
     handleMessage env state msg = Inr (state
       \<lparr>progress :=
          \<lparr>percent = coalesce (get msg ''percent'') (percent (progress state)),
           status = orElse (get msg ''status'') (JStr ''''),
           step = orElse (get msg ''step'') (JStr '''')\<rparr>,
        messages := logUpdate (messages state) msg\<rparr>)"
  by (simp add: handleMessage_def passthrough_def Let_def)

text \<open>
  Claim C2, as the code has it.  A dispatch of a \<^verbatim>\<open>progress\<close> message always completes
  and overwrites the single progress value: \<^verbatim>\<open>percent\<close> takes the incoming value unless
  that is \<^verbatim>\<open>null\<close> or \<^verbatim>\<open>undefined\<close>, in which case it keeps its previous value;
  \<^verbatim>\<open>status\<close> and \<^verbatim>\<open>step\<close> each take the incoming value when it is truthy and become
  the empty string otherwise, whatever they were before.
\<close>

theorem handleMessage_progress:
  "get msg ''type'' = JStr ''progress'' \<Longrightarrow>
     \<exists>state'. handleMessage env state msg = Inr state'
       \<and> percent (progress state')
           = (if nullish (get msg ''percent'') then percent (progress state)
              else get msg ''percent'')
       \<and> status (progress state')
           = (if truthy (get msg ''status'') then get msg ''status'' else JStr '''')
       \<and> step (progress state')
           = (if truthy (get msg ''step'') then get msg ''step'' else JStr '''')"
  by (simp add: progress_case coalesce_def orElse_def)

text \<open>
  The theorem at the second dispatch of the example of C2: after
  \<^verbatim>\<open>{percent:10, status:"start", step:"script"}\<close>, the message \<^verbatim>\<open>{type:"progress", percent:40}\<close>
  leaves \<^verbatim>\<open>{percent:40, status:"", step:""}\<close>.
\<close>

theorem handleMessage_progress_witness:
  "get [(''type'', JStr ''progress''), (''percent'', JNum 40)] ''type'' = JStr ''progress''
   \<and> (\<exists>state'. handleMessage env0
          (initialState\<lparr>progress :=
             \<lparr>percent = JNum 10, status = JStr ''start'', step = JStr ''script''\<rparr>\<rparr>)
          [(''type'', JStr ''progress''), (''percent'', JNum 40)] = Inr state'
        \<and> progress state' = \<lparr>percent = JNum 40, status = JStr '''', step = JStr ''''\<rparr>)"
  using handleMessage_progress [of "[(''type'', JStr ''progress''), (''percent'', JNum 40)]" env0
      "initialState\<lparr>progress :=
             \<lparr>percent = JNum 10, status = JStr ''start'', step = JStr ''script''\<rparr>\<rparr>"]
  by (auto simp add: get_def nullish_def)

text \<open>
  Against C2 as stated: the two dispatches of its example, from the initial state, do not
  yield \<^verbatim>\<open>{percent:40, status:"start", step:"script"}\<close>.
\<close>

theorem progress_fallback_counterexample:
  "progress (foldl (onmessage env0) initialState
     [[(''type'', JStr ''progress''), (''percent'', JNum 10), (''status'', JStr ''start''),
       (''step'', JStr ''script'')],
      [(''type'', JStr ''progress''), (''percent'', JNum 40)]])
   = \<lparr>percent = JNum 40, status = JStr '''', step = JStr ''''\<rparr>
   \<and> progress (foldl (onmessage env0) initialState
     [[(''type'', JStr ''progress''), (''percent'', JNum 10), (''status'', JStr ''start''),
       (''step'', JStr ''script'')],
      [(''type'', JStr ''progress''), (''percent'', JNum 40)]])
   \<noteq> \<lparr>percent = JNum 40, status = JStr ''start'', step = JStr ''script''\<rparr>"
  by (simp add: onmessage_def handleMessage_def logUpdate_def get_def passthrough_def
        coalesce_def nullish_def orElse_def initialState_def Let_def)

section \<open>connection_established\<close>

lemma connection_established_case:
  "get msg ''type'' = JStr ''connection_established'' \<Longrightarrow>
     handleMessage env state msg
       = Inr (state\<lparr>connectionStatus := Connected, messages := logUpdate (messages state) msg\<rparr>)"
  by (simp add: handleMessage_def passthrough_def Let_def)

text \<open>
  Claim C5, as the code has it.  A dispatch of a \<^verbatim>\<open>connection_established\<close> message
  always completes; it enters the message in the log by the rule of the log (appended,
  unless it is a partial update) and sets \<^verbatim>\<open>connectionStatus\<close> to \<^verbatim>\<open>connected\<close>.
  \<^verbatim>\<open>toolCalls\<close>, \<^verbatim>\<open>toolResults\<close>, \<^verbatim>\<open>progress\<close>, \<^verbatim>\<open>scripts\<close>, \<^verbatim>\<open>projectFiles\<close>,
  \<^verbatim>\<open>videoPreviews\<close>, \<^verbatim>\<open>userContext\<close>, \<^verbatim>\<open>selectedFile\<close> and \<^verbatim>\<open>error\<close> are left unchanged.
\<close>

theorem handleMessage_connection_established:
  "get msg ''type'' = JStr ''connection_established'' \<Longrightarrow>
     \<exists>state'. handleMessage env state msg = Inr state'
       \<and> messages state' = logUpdate (messages state) msg
       \<and> (\<not> (truthy (get msg ''message_id'') \<and> truthy (get msg ''is_partial''))
            \<longrightarrow> messages state' = messages state @ [msg])
       \<and> connectionStatus state' = Connected
       \<and> toolCalls state' = toolCalls state
       \<and> toolResults state' = toolResults state
       \<and> progress state' = progress state
       \<and> scripts state' = scripts state
       \<and> projectFiles state' = projectFiles state
       \<and> videoPreviews state' = videoPreviews state
       \<and> userContext state' = userContext state
       \<and> selectedFile state' = selectedFile state
       \<and> error state' = error state"
  by (auto simp add: connection_established_case logUpdate_def)

text \<open>The theorem at the initial state.\<close>

theorem handleMessage_connection_established_witness:
  "get [(''type'', JStr ''connection_established'')] ''type'' = JStr ''connection_established''
   \<and> handleMessage env0 initialState [(''type'', JStr ''connection_established'')]
       = Inr (initialState\<lparr>connectionStatus := Connected,
                messages := [[(''type'', JStr ''connection_established'')]]\<rparr>)"
  using handleMessage_connection_established
    [of "[(''type'', JStr ''connection_established'')]" env0 initialState]
  by (simp add: handleMessage_def logUpdate_def get_def passthrough_def initialState_def Let_def)

text \<open>
  Against C5 as stated ("connectionStatus ... left unchanged"): the store starts
  \<^verbatim>\<open>disconnected\<close>, and the dispatch makes it \<^verbatim>\<open>connected\<close>.
\<close>

theorem connection_established_counterexample:
  "connectionStatus initialState = Disconnected
   \<and> map_sum id connectionStatus
        (handleMessage env0 initialState [(''type'', JStr ''connection_established'')])
       = Inr Connected"
  by (simp add: handleMessage_def logUpdate_def get_def passthrough_def initialState_def Let_def)

section \<open>error\<close>

lemma error_case:
  "get msg ''type'' = JStr ''error'' \<Longrightarrow>
     handleMessage env state msg
       = Inr (state\<lparr>error := orElse (get msg ''detail'')
                           (orElse (get msg ''message'') (JStr ''Unknown error'')),
                messages := logUpdate (messages state) msg\<rparr>)"
  by (simp add: handleMessage_def passthrough_def Let_def)

text \<open>
  Claim C9, as the code has it.  A dispatch of an \<^verbatim>\<open>error\<close> message always completes; it
  sets the error slot to \<^verbatim>\<open>msg.detail || msg.message || "Unknown error"\<close>, that is to
  \<^verbatim>\<open>detail\<close> when that is truthy (a present but empty \<^verbatim>\<open>detail\<close> is passed over), else
  to \<^verbatim>\<open>message\<close> when that is truthy, else to the fixed string; and it enters the message
  in the log by the rule of the log, which appends it unless it is a partial update.
\<close>

theorem handleMessage_error:
  "get msg ''type'' = JStr ''error'' \<Longrightarrow>
     \<exists>state'. handleMessage env state msg = Inr state'
       \<and> error state'
           = (if truthy (get msg ''detail'') then get msg ''detail''
              else if truthy (get msg ''message'') then get msg ''message''
              else JStr ''Unknown error'')
       \<and> messages state' = logUpdate (messages state) msg
       \<and> (\<not> (truthy (get msg ''message_id'') \<and> truthy (get msg ''is_partial''))
            \<longrightarrow> messages state' = messages state @ [msg])"
  by (auto simp add: error_case logUpdate_def orElse_def)

text \<open>The example of C9: dispatching \<^verbatim>\<open>error{detail:"boom"}\<close> makes the error slot \<^verbatim>\<open>"boom"\<close>.\<close>

theorem handleMessage_error_witness:
  "get [(''type'', JStr ''error''), (''detail'', JStr ''boom'')] ''type'' = JStr ''error''
   \<and> (\<exists>state'. handleMessage env0 initialState
                   [(''type'', JStr ''error''), (''detail'', JStr ''boom'')] = Inr state'
        \<and> error state' = JStr ''boom''
        \<and> messages state' = [[(''type'', JStr ''error''), (''detail'', JStr ''boom'')]])"
  using handleMessage_error [of "[(''type'', JStr ''error''), (''detail'', JStr ''boom'')]"
      env0 initialState]
  by (auto simp add: get_def initialState_def)

text \<open>
  Against C9 as stated ("detail field if present", "appends the error message to the
  log").  An error message whose \<^verbatim>\<open>detail\<close> is present and empty sets the slot to its
  \<^verbatim>\<open>message\<close> field, not to its \<^verbatim>\<open>detail\<close>.  An error message that is a partial update
  of an earlier one is merged into that entry: after the two dispatches the log has one
  entry, not two.
\<close>

theorem error_present_append_counterexample:
  "error (onmessage env0 initialState
     [(''type'', JStr ''error''), (''detail'', JStr ''''), (''message'', JStr ''m'')])
   = JStr ''m''
   \<and> get [(''type'', JStr ''error''), (''detail'', JStr ''''), (''message'', JStr ''m'')]
        ''detail'' = JStr ''''
   \<and> messages (foldl (onmessage env0) initialState
     [[(''type'', JStr ''error''), (''message_id'', JStr ''e1''), (''detail'', JStr ''bo'')],
      [(''type'', JStr ''error''), (''message_id'', JStr ''e1''), (''is_partial'', JBool True),
       (''detail'', JStr ''boom'')]])
   = [[(''type'', JStr ''error''), (''message_id'', JStr ''e1''), (''detail'', JStr ''boom''),
       (''is_partial'', JBool True)]]"
  by (simp add: onmessage_def handleMessage_def logUpdate_def get_def spread_def
        passthrough_def orElse_def initialState_def Let_def)

section \<open>Scripts never stay among the project files\<close>

lemma script_writer_case:
  assumes "get msg ''type'' = JStr ''tool_result''"
    "truthy (get msg ''success'')" "truthy (get msg ''result'')"
    "get msg ''tool'' = JStr ''script_writer''"
    "truthy (getProp (get msg ''result'') ''script_text'')"
  shows "handleMessage env state msg = Inr (state
     \<lparr>toolResults := toolResults state @ [toolResultOf msg],
      messages := logUpdate (messages state) msg,
      projectFiles := filter notScript (projectFiles state),
      scripts := scripts state @ [newScript env (getProp (get msg ''result'') ''script_text'')]\<rparr>)"
  using assms
  by (simp add: handleMessage_tool_result toolResultCase_def scriptWriter_def
        toolResultFinish_def Let_def)

lemma script_created_case:
  assumes "get msg ''type'' = JStr ''gui_update''"
    "get msg ''update_type'' = JStr ''script_created''"
    "optProp (get msg ''data'') ''script_content'' = JStr body" "body \<noteq> []"
  shows "handleMessage env state msg = Inr (state
     \<lparr>messages := logUpdate (messages state) msg,
      scripts := scripts state @ [newScript env (JStr body)],
      projectFiles := filter notScript (projectFiles state)\<rparr>)"
proof -
  from assms(3) have g: "getProp (get msg ''data'') ''script_content'' = JStr body"
    by (simp add: optProp_def split: if_splits)
  from assms g show ?thesis
    by (simp add: handleMessage_gui_update guiUpdateCase_def scriptCreated_def
          mediaDownloaded_def guiUpdateFinish_def Let_def)
qed

text \<open>
  What both paths do when the script text is a string (the \<^verbatim>\<open>tool_result\<close> path: when
  it is any truthy value): the dispatch completes, afterwards no project file has
  \<^verbatim>\<open>type === 'script'\<close>, and the scripts are the earlier ones followed by exactly one new
  entry, which holds the text.  Nothing is assumed about the project files before.
\<close>

lemma script_paths:
  "(get msg ''type'' = JStr ''tool_result''
      \<and> truthy (get msg ''success'') \<and> truthy (get msg ''result'')
      \<and> get msg ''tool'' = JStr ''script_writer''
      \<and> truthy (getProp (get msg ''result'') ''script_text'')
    \<longrightarrow> (\<exists>state'. handleMessage env state msg = Inr state'
          \<and> (\<forall>file\<in>set (projectFiles state'). \<not> strict_eq (pf_type file) (JStr ''script''))
          \<and> projectFiles state' = filter notScript (projectFiles state)
          \<and> length (scripts state') = length (scripts state) + 1
          \<and> butlast (scripts state') = scripts state
          \<and> sc_content (last (scripts state')) = getProp (get msg ''result'') ''script_text''))
   \<and> (get msg ''type'' = JStr ''gui_update''
      \<and> get msg ''update_type'' = JStr ''script_created''
      \<and> optProp (get msg ''data'') ''script_content'' = JStr body \<and> body \<noteq> []
    \<longrightarrow> (\<exists>state'. handleMessage env state msg = Inr state'
          \<and> (\<forall>file\<in>set (projectFiles state'). \<not> strict_eq (pf_type file) (JStr ''script''))
          \<and> projectFiles state' = filter notScript (projectFiles state)
          \<and> length (scripts state') = length (scripts state) + 1
          \<and> butlast (scripts state') = scripts state
          \<and> sc_content (last (scripts state')) = JStr body))"
proof (intro conjI impI)
  assume a: "get msg ''type'' = JStr ''tool_result''
      \<and> truthy (get msg ''success'') \<and> truthy (get msg ''result'')
      \<and> get msg ''tool'' = JStr ''script_writer''
      \<and> truthy (getProp (get msg ''result'') ''script_text'')"
  then have "handleMessage env state msg = Inr (state
     \<lparr>toolResults := toolResults state @ [toolResultOf msg],
      messages := logUpdate (messages state) msg,
      projectFiles := filter notScript (projectFiles state),
      scripts := scripts state @ [newScript env (getProp (get msg ''result'') ''script_text'')]\<rparr>)"
    using script_writer_case [of msg env state] by blast
  then show "\<exists>state'. handleMessage env state msg = Inr state'
          \<and> (\<forall>file\<in>set (projectFiles state'). \<not> strict_eq (pf_type file) (JStr ''script''))
          \<and> projectFiles state' = filter notScript (projectFiles state)
          \<and> length (scripts state') = length (scripts state) + 1
          \<and> butlast (scripts state') = scripts state
          \<and> sc_content (last (scripts state')) = getProp (get msg ''result'') ''script_text''"
    by (simp add: notScript_def newScript_def)
next
  assume a: "get msg ''type'' = JStr ''gui_update''
      \<and> get msg ''update_type'' = JStr ''script_created''
      \<and> optProp (get msg ''data'') ''script_content'' = JStr body \<and> body \<noteq> []"
  then have "handleMessage env state msg = Inr (state
     \<lparr>messages := logUpdate (messages state) msg,
      scripts := scripts state @ [newScript env (JStr body)],
      projectFiles := filter notScript (projectFiles state)\<rparr>)"
    using script_created_case [of msg body env state] by blast
  then show "\<exists>state'. handleMessage env state msg = Inr state'
          \<and> (\<forall>file\<in>set (projectFiles state'). \<not> strict_eq (pf_type file) (JStr ''script''))
          \<and> projectFiles state' = filter notScript (projectFiles state)
          \<and> length (scripts state') = length (scripts state) + 1
          \<and> butlast (scripts state') = scripts state
          \<and> sc_content (last (scripts state')) = JStr body"
    by (simp add: notScript_def newScript_def)
qed

text \<open>
  The test of the specification: with one \<^verbatim>\<open>script\<close>-typed project file seeded, either
  dispatch leaves no project file and one script.
\<close>

lemma script_paths_example:
  "(\<exists>state'. handleMessage env0
        (initialState\<lparr>projectFiles :=
           [\<lparr>pf_id = ''f1'', pf_name = JStr ''draft'', pf_type = JStr ''script'',
             pf_path = JStr ''/p/draft.txt'', pf_url = JUndefined, pf_size = JNum 12,
             pf_timestamp = ''t0'', pf_thumbnail = JUndefined, pf_duration = JUndefined,
             pf_source = JUndefined\<rparr>]\<rparr>)
        [(''type'', JStr ''tool_result''), (''tool'', JStr ''script_writer''),
         (''success'', JBool True), (''result'', JObj [(''script_text'', JStr ''Scene 1'')])]
      = Inr state'
      \<and> projectFiles state' = [] \<and> length (scripts state') = 1
      \<and> sc_content (last (scripts state')) = JStr ''Scene 1'')
   \<and> (\<exists>state'. handleMessage env0
        (initialState\<lparr>projectFiles :=
           [\<lparr>pf_id = ''f1'', pf_name = JStr ''draft'', pf_type = JStr ''script'',
             pf_path = JStr ''/p/draft.txt'', pf_url = JUndefined, pf_size = JNum 12,
             pf_timestamp = ''t0'', pf_thumbnail = JUndefined, pf_duration = JUndefined,
             pf_source = JUndefined\<rparr>]\<rparr>)
        [(''type'', JStr ''gui_update''), (''update_type'', JStr ''script_created''),
         (''data'', JObj [(''script_content'', JStr ''Scene 1'')])]
      = Inr state'
      \<and> projectFiles state' = [] \<and> length (scripts state') = 1
      \<and> sc_content (last (scripts state')) = JStr ''Scene 1'')"
proof -
  let ?st = "initialState\<lparr>projectFiles :=
           [\<lparr>pf_id = ''f1'', pf_name = JStr ''draft'', pf_type = JStr ''script'',
             pf_path = JStr ''/p/draft.txt'', pf_url = JUndefined, pf_size = JNum 12,
             pf_timestamp = ''t0'', pf_thumbnail = JUndefined, pf_duration = JUndefined,
             pf_source = JUndefined\<rparr>]\<rparr>"
  let ?m1 = "[(''type'', JStr ''tool_result''), (''tool'', JStr ''script_writer''),
         (''success'', JBool True), (''result'', JObj [(''script_text'', JStr ''Scene 1'')])]"
  let ?m2 = "[(''type'', JStr ''gui_update''), (''update_type'', JStr ''script_created''),
         (''data'', JObj [(''script_content'', JStr ''Scene 1'')])]"
  have h1: "get ?m1 ''type'' = JStr ''tool_result''
      \<and> truthy (get ?m1 ''success'') \<and> truthy (get ?m1 ''result'')
      \<and> get ?m1 ''tool'' = JStr ''script_writer''
      \<and> truthy (getProp (get ?m1 ''result'') ''script_text'')"
    by (simp add: get_def)
  have h2: "get ?m2 ''type'' = JStr ''gui_update''
      \<and> get ?m2 ''update_type'' = JStr ''script_created''
      \<and> optProp (get ?m2 ''data'') ''script_content'' = JStr ''Scene 1'' \<and> ''Scene 1'' \<noteq> []"
    by (simp add: get_def optProp_def nullish_def)
  have f: "filter notScript (projectFiles ?st) = []" "scripts ?st = []"
    by (simp_all add: notScript_def initialState_def)
  have g: "getProp (get ?m1 ''result'') ''script_text'' = JStr ''Scene 1''"
    by (simp add: get_def)
  from script_paths [where msg = ?m1 and env = env0 and state = ?st] h1
  have 1: "\<exists>state'. handleMessage env0 ?st ?m1 = Inr state'
      \<and> projectFiles state' = [] \<and> length (scripts state') = 1
      \<and> sc_content (last (scripts state')) = JStr ''Scene 1''"
    unfolding f g by auto
  from script_paths [where msg = ?m2 and env = env0 and state = ?st
      and body = "''Scene 1''"] h2
  have 2: "\<exists>state'. handleMessage env0 ?st ?m2 = Inr state'
      \<and> projectFiles state' = [] \<and> length (scripts state') = 1
      \<and> sc_content (last (scripts state')) = JStr ''Scene 1''"
    unfolding f by auto
  from 1 2 show ?thesis by blast
qed

lemma script_created_throws:
  assumes "get msg ''type'' = JStr ''gui_update''"
    "get msg ''update_type'' = JStr ''script_created''"
    "truthy (optProp (get msg ''data'') ''script_content'')"
    "\<not> isString (optProp (get msg ''data'') ''script_content'')"
  shows "handleMessage env state msg = Inl TypeError"
proof -
  from assms(3) have g: "getProp (get msg ''data'') ''script_content''
      = optProp (get msg ''data'') ''script_content''"
    by (simp add: optProp_def split: if_splits)
  from assms(4) have "scriptCreated env state (get msg ''update_type'') (get msg ''data'')
      = Inl TypeError"
    using assms(2,3) unfolding scriptCreated_def g
    by (cases "optProp (get msg ''data'') ''script_content''") (simp_all add: isString_def)
  with assms(1) show ?thesis
    by (simp add: handleMessage_gui_update guiUpdateCase_def Let_def)
qed

text \<open>
  Claim C3 fails on the code.  A \<^verbatim>\<open>gui_update\<close> with update type \<^verbatim>\<open>script_created\<close> that
  carries the number 42 as \<^verbatim>\<open>data.script_content\<close> passes the guard of the branch, and
  the \<^verbatim>\<open>console.log\<close> line that calls \<^verbatim>\<open>substring\<close> on the content throws before
  anything is pushed or filtered: the dispatch ends with a \<^verbatim>\<open>TypeError\<close>, and the store
  that \<^verbatim>\<open>ws.onmessage\<close> leaves still has its script-typed project file and no script.
  The \<^verbatim>\<open>tool_result\<close> path, given the same value as \<^verbatim>\<open>result.script_text\<close>, completes,
  removes the file and adds the script.
\<close>

theorem script_created_non_string:
  "handleMessage env0
     (initialState\<lparr>projectFiles :=
        [\<lparr>pf_id = ''f1'', pf_name = JStr ''draft'', pf_type = JStr ''script'',
          pf_path = JStr ''/p/draft.txt'', pf_url = JUndefined, pf_size = JNum 12,
          pf_timestamp = ''t0'', pf_thumbnail = JUndefined, pf_duration = JUndefined,
          pf_source = JUndefined\<rparr>]\<rparr>)
     [(''type'', JStr ''gui_update''), (''update_type'', JStr ''script_created''),
      (''data'', JObj [(''script_content'', JNum 42)])]
   = Inl TypeError
   \<and> projectFiles (onmessage env0
     (initialState\<lparr>projectFiles :=
        [\<lparr>pf_id = ''f1'', pf_name = JStr ''draft'', pf_type = JStr ''script'',
          pf_path = JStr ''/p/draft.txt'', pf_url = JUndefined, pf_size = JNum 12,
          pf_timestamp = ''t0'', pf_thumbnail = JUndefined, pf_duration = JUndefined,
          pf_source = JUndefined\<rparr>]\<rparr>)
     [(''type'', JStr ''gui_update''), (''update_type'', JStr ''script_created''),
      (''data'', JObj [(''script_content'', JNum 42)])])
   = [\<lparr>pf_id = ''f1'', pf_name = JStr ''draft'', pf_type = JStr ''script'',
       pf_path = JStr ''/p/draft.txt'', pf_url = JUndefined, pf_size = JNum 12,
       pf_timestamp = ''t0'', pf_thumbnail = JUndefined, pf_duration = JUndefined,
       pf_source = JUndefined\<rparr>]
   \<and> scripts (onmessage env0
     (initialState\<lparr>projectFiles :=
        [\<lparr>pf_id = ''f1'', pf_name = JStr ''draft'', pf_type = JStr ''script'',
          pf_path = JStr ''/p/draft.txt'', pf_url = JUndefined, pf_size = JNum 12,
          pf_timestamp = ''t0'', pf_thumbnail = JUndefined, pf_duration = JUndefined,
          pf_source = JUndefined\<rparr>]\<rparr>)
     [(''type'', JStr ''gui_update''), (''update_type'', JStr ''script_created''),
      (''data'', JObj [(''script_content'', JNum 42)])])
   = []
   \<and> projectFiles (onmessage env0
     (initialState\<lparr>projectFiles :=
        [\<lparr>pf_id = ''f1'', pf_name = JStr ''draft'', pf_type = JStr ''script'',
          pf_path = JStr ''/p/draft.txt'', pf_url = JUndefined, pf_size = JNum 12,
          pf_timestamp = ''t0'', pf_thumbnail = JUndefined, pf_duration = JUndefined,
          pf_source = JUndefined\<rparr>]\<rparr>)
     [(''type'', JStr ''tool_result''), (''tool'', JStr ''script_writer''),
      (''success'', JBool True), (''result'', JObj [(''script_text'', JNum 42)])])
   = []
   \<and> map sc_content (scripts (onmessage env0
     (initialState\<lparr>projectFiles :=
        [\<lparr>pf_id = ''f1'', pf_name = JStr ''draft'', pf_type = JStr ''script'',
          pf_path = JStr ''/p/draft.txt'', pf_url = JUndefined, pf_size = JNum 12,
          pf_timestamp = ''t0'', pf_thumbnail = JUndefined, pf_duration = JUndefined,
          pf_source = JUndefined\<rparr>]\<rparr>)
     [(''type'', JStr ''tool_result''), (''tool'', JStr ''script_writer''),
      (''success'', JBool True), (''result'', JObj [(''script_text'', JNum 42)])]))
   = [JNum 42]"
  by (simp add: onmessage_def setError_def handleMessage_gui_update handleMessage_tool_result
        guiUpdateCase_def scriptCreated_def toolResultCase_def scriptWriter_def
        toolResultFinish_def notScript_def newScript_def get_def optProp_def nullish_def
        initialState_def Let_def)

section \<open>The note of a broll_finder result\<close>

lemma pushEach_downloadedFile:
  "list_all (\<lambda>f. \<not> nullish f) fs \<Longrightarrow>
     \<exists>files'. pushEach (downloadedFile env) i fs files = Inr files'"
proof (induction fs arbitrary: i files)
  case Nil
  then show ?case by simp
next
  case (Cons f fs)
  then show ?case by (simp add: downloadedFile_def)
qed

lemma fileFromPath_ok:
  assumes "isString p" "fileTypeOk result k"
  shows "\<exists>file. fileFromPath env result k p = Inr file"
proof -
  from assms(1) obtain s where p: "p = JStr s"
    by (cases p) (simp_all add: isString_def)
  let ?ft = "getProp (orElse (optIndex (getProp result ''metadata'') k) (JObj [])) ''file_type''"
  from assms(2) have "nullish ?ft \<or> isString ?ft"
    by (simp add: fileTypeOk_def Let_def)
  then have "\<exists>t. fileType env ?ft = Inr t"
    by (cases ?ft) (simp_all add: nullish_def isString_def)
  then obtain t where t: "fileType env ?ft = Inr t" ..
  show ?thesis
    unfolding fileFromPath_def Let_def p by (simp add: t)
qed

lemma pushEach_fileFromPath:
  "\<forall>j<length ps. isString (ps ! j) \<and> fileTypeOk result (i + j) \<Longrightarrow>
     \<exists>files'. pushEach (fileFromPath env result) i ps files = Inr files'"
proof (induction ps arbitrary: i files)
  case Nil
  then show ?case by simp
next
  case (Cons p ps)
  from Cons.prems have "isString p" "fileTypeOk result i" by auto
  then obtain pf where f: "fileFromPath env result i p = Inr pf"
    using fileFromPath_ok by blast
  from Cons.prems have "\<forall>j<length ps. isString (ps ! j) \<and> fileTypeOk result (Suc i + j)"
    by auto
  from Cons.IH [OF this] f show ?case by simp
qed

lemma brollFinder_ok:
  assumes "filesOk (getProp result ''downloaded_files'')" "pathsOk result"
  shows "\<exists>r. brollFinder env result files msgs = Inr r"
proof -
  let ?df = "getProp result ''downloaded_files''"
  let ?fp = "getProp result ''file_paths''"
  have 1: "\<exists>files1. (if truthy ?df \<and> gt0 env (getProp ?df ''length'')
               then forEachPush (downloadedFile env) ?df files else Inr files) = Inr files1"
  proof (cases ?df)
    case (JArr fs)
    with assms(1) have "list_all (\<lambda>f. \<not> nullish f) fs" by (simp add: filesOk_def)
    from pushEach_downloadedFile [OF this] JArr show ?thesis
      by (simp add: forEachPush_def)
  qed (use assms(1) in \<open>simp_all add: filesOk_def\<close>)
  then obtain files1 where f1: "(if truthy ?df \<and> gt0 env (getProp ?df ''length'')
               then forEachPush (downloadedFile env) ?df files else Inr files) = Inr files1" ..
  have 2: "\<exists>files2. (if truthy ?fp \<and> gt0 env (getProp ?fp ''length'')
                       \<and> (\<not> truthy ?df \<or> strict_eq (getProp ?df ''length'') (JNum 0))
                    then forEachPush (fileFromPath env result) ?fp files1 else Inr files1)
                  = Inr files2"
  proof (cases ?fp)
    case (JArr ps)
    with assms(2) have "\<forall>j<length ps. isString (ps ! j) \<and> fileTypeOk result (0 + j)"
      by (simp add: pathsOk_def list_all_iff)
    from pushEach_fileFromPath [OF this] JArr show ?thesis
      by (simp add: forEachPush_def)
  qed (use assms(2) in \<open>simp_all add: pathsOk_def\<close>)
  then obtain files2 where f2: "(if truthy ?fp \<and> gt0 env (getProp ?fp ''length'')
                       \<and> (\<not> truthy ?df \<or> strict_eq (getProp ?df ''length'') (JNum 0))
                    then forEachPush (fileFromPath env result) ?fp files1 else Inr files1)
                  = Inr files2" ..
  show ?thesis
    unfolding brollFinder_def Let_def by (simp only: f1 f2 sum.case) simp
qed

lemma broll_finder_returns:
  assumes "get msg ''type'' = JStr ''tool_result''"
    "get msg ''tool'' = JStr ''broll_finder''"
    "filesOk (getProp (get msg ''result'') ''downloaded_files'')"
    "pathsOk (get msg ''result'')"
  shows "\<exists>state'. handleMessage env state msg = Inr state'"
proof (cases "truthy (get msg ''success'') \<and> truthy (get msg ''result'')")
  case False
  with assms(1) show ?thesis
    by (auto simp add: handleMessage_tool_result toolResultCase_def Let_def)
next
  case True
  obtain scripts1 files1 where
    sw: "scriptWriter env state (get msg ''tool'') (get msg ''result'') = (scripts1, files1)"
    by (cases "scriptWriter env state (get msg ''tool'') (get msg ''result'')")
  from brollFinder_ok [OF assms(3,4)] obtain files2 msgs2 where
    "brollFinder env (get msg ''result'') files1 (logUpdate (messages state) msg)
       = Inr (files2, msgs2)"
    by fastforce
  with True assms(1,2) sw show ?thesis
    by (simp add: handleMessage_tool_result toolResultCase_def Let_def)
qed

lemma get_brollNote:
  "get (brollNote env result) ''content'' = getProp result ''message''"
  "get (brollNote env result) ''type'' = JStr ''informational''"
  by (simp_all add: brollNote_def get_def)

text \<open>
  Claim C10.  Let a successful \<^verbatim>\<open>broll_finder\<close> tool result carry a truthy
  \<^verbatim>\<open>result.message\<close>.  Whenever its dispatch completes, and it does whenever the payload
  has one of the shapes of \<open>filesOk\<close> and \<open>pathsOk\<close>, the log is the log after the rule
  for the message itself, followed by one synthetic entry of type \<^verbatim>\<open>informational\<close> whose
  \<^verbatim>\<open>content\<close> is \<^verbatim>\<open>result.message\<close>.  When the message itself is appended, this one
  dispatch makes the log two entries longer.
\<close>

theorem broll_finder_note:
  assumes "get msg ''type'' = JStr ''tool_result''"
    "truthy (get msg ''success'')"
    "get msg ''tool'' = JStr ''broll_finder''"
    "truthy (getProp (get msg ''result'') ''message'')"
  shows "(filesOk (getProp (get msg ''result'') ''downloaded_files'') \<and> pathsOk (get msg ''result'')
            \<longrightarrow> (\<exists>state'. handleMessage env state msg = Inr state'))
     \<and> (\<forall>state'. handleMessage env state msg = Inr state' \<longrightarrow>
           messages state'
             = logUpdate (messages state) msg @ [brollNote env (get msg ''result'')]
           \<and> (\<not> (truthy (get msg ''message_id'') \<and> truthy (get msg ''is_partial''))
                \<longrightarrow> messages state'
                      = messages state @ [msg, brollNote env (get msg ''result'')]
                    \<and> length (messages state') = length (messages state) + 2))
     \<and> get (brollNote env (get msg ''result'')) ''content''
         = getProp (get msg ''result'') ''message''
     \<and> get (brollNote env (get msg ''result'')) ''type'' = JStr ''informational''"
proof -
  from assms(4) have r: "truthy (get msg ''result'')"
    by (cases "get msg ''result''") (simp_all split: if_splits)
  from assms r have due: "brollNotes env msg = [brollNote env (get msg ''result'')]"
    by (simp add: brollNotes_def brollNoteDue_def)
  have a: "\<not> (truthy (get msg ''message_id'') \<and> truthy (get msg ''is_partial''))
             \<Longrightarrow> logUpdate (messages state) msg = messages state @ [msg]"
    by (auto simp: logUpdate_def)
  show ?thesis
    using broll_finder_returns [OF assms(1,3), of env state]
      handleMessage_messages [of env state msg] due a
    by (auto simp add: get_brollNote)
qed

text \<open>The theorem at a result with one downloaded file and a message, from the initial state.\<close>

theorem broll_finder_note_witness:
  "(\<exists>state'. handleMessage env0 initialState
        [(''type'', JStr ''tool_result''), (''tool'', JStr ''broll_finder''),
         (''step'', JStr ''broll''), (''success'', JBool True),
         (''result'', JObj
            [(''message'', JStr ''Found 1 image''),
             (''downloaded_files'', JArr
                [JObj [(''name'', JStr ''a.jpg''), (''type'', JStr ''image''),
                       (''path'', JStr ''/x/a.jpg''), (''url'', JStr ''http://h/a.jpg''),
                       (''size'', JNum 100)]])])]
      = Inr state'
      \<and> length (messages state') = 2
      \<and> get (messages state' ! 1) ''content'' = JStr ''Found 1 image''
      \<and> get (messages state' ! 1) ''type'' = JStr ''informational'')"
proof -
  let ?m = "[(''type'', JStr ''tool_result''), (''tool'', JStr ''broll_finder''),
         (''step'', JStr ''broll''), (''success'', JBool True),
         (''result'', JObj
            [(''message'', JStr ''Found 1 image''),
             (''downloaded_files'', JArr
                [JObj [(''name'', JStr ''a.jpg''), (''type'', JStr ''image''),
                       (''path'', JStr ''/x/a.jpg''), (''url'', JStr ''http://h/a.jpg''),
                       (''size'', JNum 100)]])])]"
  have h: "get ?m ''type'' = JStr ''tool_result''" "truthy (get ?m ''success'')"
    "get ?m ''tool'' = JStr ''broll_finder''"
    "truthy (getProp (get ?m ''result'') ''message'')"
    by (simp_all add: get_def)
  have ok: "filesOk (getProp (get ?m ''result'') ''downloaded_files'')"
    "pathsOk (get ?m ''result'')"
    by (simp_all add: get_def filesOk_def pathsOk_def nullish_def)
  have np: "\<not> (truthy (get ?m ''message_id'') \<and> truthy (get ?m ''is_partial''))"
    by (simp add: get_def)
  have c: "getProp (get ?m ''result'') ''message'' = JStr ''Found 1 image''"
    by (simp add: get_def)
  have e: "messages initialState = []" by (simp add: initialState_def)
  from broll_finder_note [OF h, of env0 initialState] ok np
  obtain state' where s: "handleMessage env0 initialState ?m = Inr state'"
    and m: "messages state' = messages initialState @ [?m, brollNote env0 (get ?m ''result'')]"
    and n: "get (brollNote env0 (get ?m ''result'')) ''content''
         = getProp (get ?m ''result'') ''message''"
      "get (brollNote env0 (get ?m ''result'')) ''type'' = JStr ''informational''"
    by blast
  from m n have "length (messages state') = 2
      \<and> get (messages state' ! 1) ''content'' = JStr ''Found 1 image''
      \<and> get (messages state' ! 1) ''type'' = JStr ''informational''"
    unfolding e c by simp
  with s show ?thesis by blast
qed

section \<open>Reconnecting after a close\<close>

lemma store_connect: "connect validUrl wsUrl h = Inr h' \<Longrightarrow> store h' = store h"
  by (auto simp: connect_def newSocket_def split: if_splits option.splits)

text \<open>
  Claim C4.  When \<^verbatim>\<open>onclose\<close> runs with a code other than 1000 while the session
  identifier is set, it schedules exactly one timeout, of 2000 ms, whose callback is
  \<^verbatim>\<open>connect\<close>, and leaves the connection status \<^verbatim>\<open>reconnecting\<close>; the status is still
  \<^verbatim>\<open>reconnecting\<close> after a timeout has fired and run \<^verbatim>\<open>connect\<close>.  When the code is 1000
  or the session identifier is empty, it schedules nothing and leaves the status
  \<^verbatim>\<open>disconnected\<close>.
\<close>

theorem onclose_reconnect:
  "(code \<noteq> 1000 \<and> sessionIdRef h \<noteq> [] \<longrightarrow>
      timeouts (onclose wsUrl code h)
        = timeouts h @ [\<lparr>handle = nextHandle h, delay = 2000, callbackUrl = wsUrl\<rparr>]
      \<and> reconnectRef (onclose wsUrl code h) = Some (nextHandle h)
      \<and> connectionStatus (store (onclose wsUrl code h)) = Reconnecting
      \<and> (\<forall>validUrl t h'. timeoutFires validUrl t (onclose wsUrl code h) = Inr h'
            \<longrightarrow> connectionStatus (store h') = Reconnecting))
   \<and> (code = 1000 \<or> sessionIdRef h = [] \<longrightarrow>
      timeouts (onclose wsUrl code h) = timeouts h
      \<and> reconnectRef (onclose wsUrl code h) = reconnectRef h
      \<and> connectionStatus (store (onclose wsUrl code h)) = Disconnected)"
proof (intro conjI impI allI)
  fix validUrl t h'
  assume a: "code \<noteq> 1000 \<and> sessionIdRef h \<noteq> []"
    and f: "timeoutFires validUrl t (onclose wsUrl code h) = Inr h'"
  from store_connect [OF f [unfolded timeoutFires_def]]
  have "store h' = store (onclose wsUrl code h)" by simp
  with a show "connectionStatus (store h') = Reconnecting"
    by (simp add: onclose_def setConnectionStatus_def Let_def)
qed (auto simp: onclose_def setConnectionStatus_def Let_def)

text \<open>An abnormal close (1006) with session \<^verbatim>\<open>s1\<close>, a normal close, and a cleared session.\<close>

theorem onclose_reconnect_witness:
  "(1006::nat) \<noteq> 1000 \<and> sessionIdRef (initialHook ''s1'') \<noteq> []
   \<and> timeouts (onclose ''ws://localhost:8001/api/stream/s1'' 1006 (initialHook ''s1''))
       = [\<lparr>handle = 1, delay = 2000, callbackUrl = ''ws://localhost:8001/api/stream/s1''\<rparr>]
   \<and> connectionStatus (store (onclose ''ws://localhost:8001/api/stream/s1'' 1006
         (initialHook ''s1''))) = Reconnecting
   \<and> timeouts (onclose ''ws://localhost:8001/api/stream/s1'' 1000 (initialHook ''s1'')) = []
   \<and> timeouts (onclose ''ws://localhost:8001/api/stream/s1'' 1006 (initialHook '''')) = []"
  using onclose_reconnect [of 1006 "initialHook ''s1''" "''ws://localhost:8001/api/stream/s1''"]
    onclose_reconnect [of 1000 "initialHook ''s1''" "''ws://localhost:8001/api/stream/s1''"]
    onclose_reconnect [of 1006 "initialHook ''''" "''ws://localhost:8001/api/stream/s1''"]
  by (simp add: initialHook_def)

section \<open>connect is idempotent\<close>

text \<open>
  Claim C6.  \<^verbatim>\<open>connect\<close> with an empty session identifier, and \<^verbatim>\<open>connect\<close> while the
  socket of \<^verbatim>\<open>wsRef\<close> is open, return without an error and leave the hook as it was: no
  socket is closed, none is constructed, so the live connections are the same and no
  further \<^verbatim>\<open>onopen\<close> can follow from the call.
\<close>

theorem connect_idempotent:
  "(sessionIdRef h = [] \<longrightarrow> connect validUrl wsUrl h = Inr h)
   \<and> (wsRef h = Some i \<and> readyState (sockets h ! i) = OPEN
        \<longrightarrow> connect validUrl wsUrl h = Inr h)"
  by (simp add: connect_def)

text \<open>
  \<^verbatim>\<open>connect\<close> for \<^verbatim>\<open>s1\<close>, the socket opens, \<^verbatim>\<open>connect\<close> again: the second call changes
  nothing and one connection is live.  Last, a call with the empty identifier.
\<close>

theorem connect_idempotent_witness:
  "connect (\<lambda>u. True) ''ws://localhost:8001/api/stream/s1'' (initialHook ''s1'')
     = Inr ((initialHook ''s1'')
         \<lparr>sockets := [\<lparr>url = ''ws://localhost:8001/api/stream/s1'', readyState = CONNECTING\<rparr>],
          wsRef := Some 0\<rparr>)
   \<and> connect (\<lambda>u. True) ''ws://localhost:8001/api/stream/s1''
       (socketOpens 0 ((initialHook ''s1'')
         \<lparr>sockets := [\<lparr>url = ''ws://localhost:8001/api/stream/s1'', readyState = CONNECTING\<rparr>],
          wsRef := Some 0\<rparr>))
     = Inr (socketOpens 0 ((initialHook ''s1'')
         \<lparr>sockets := [\<lparr>url = ''ws://localhost:8001/api/stream/s1'', readyState = CONNECTING\<rparr>],
          wsRef := Some 0\<rparr>))
   \<and> length (liveSockets (socketOpens 0 ((initialHook ''s1'')
         \<lparr>sockets := [\<lparr>url = ''ws://localhost:8001/api/stream/s1'', readyState = CONNECTING\<rparr>],
          wsRef := Some 0\<rparr>))) = 1
   \<and> connect (\<lambda>u. True) [] (initialHook []) = Inr (initialHook [])"
  using connect_idempotent [of "socketOpens 0 ((initialHook ''s1'')
         \<lparr>sockets := [\<lparr>url = ''ws://localhost:8001/api/stream/s1'', readyState = CONNECTING\<rparr>],
          wsRef := Some 0\<rparr>)" "\<lambda>u. True" "''ws://localhost:8001/api/stream/s1''" 0]
    connect_idempotent [of "initialHook []" "\<lambda>u. True" "[]" 0]
  by (simp add: initialHook_def socketOpens_def onopen_def liveSockets_def connect_def
        newSocket_def)

section \<open>The typewriter\<close>

lemma ticks_reveal:
  assumes "k \<le> length ft"
  shows "(tick ^^ k) (st\<lparr>displayedText := [],
            streamIntervalRef := Some \<lparr>captured = ft, currentIndex = 0\<rparr>\<rparr>)
         = st\<lparr>displayedText := concat (map (indexed ft) [1..<Suc k]),
              streamIntervalRef := Some \<lparr>captured = ft, currentIndex = k\<rparr>\<rparr>"
  using assms
proof (induction k)
  case 0
  then show ?case by simp
next
  case (Suc k)
  then have "k < length ft" by simp
  with Suc show ?case
    by (simp add: tick_def)
qed

lemma messageEffect_starts:
  assumes "get message ''type'' = JStr ''ai_message''"
    "\<not> truthy (get message ''is_partial'')" "\<not> truthy (get message ''is_complete'')"
    "ft \<noteq> []"
  shows "messageEffect message ft initialStreaming
         = initialStreaming\<lparr>isStreaming := True, showCursor := True, displayedText := [],
             streamIntervalRef := Some \<lparr>captured = ft, currentIndex = 0\<rparr>\<rparr>"
  using assms by (simp add: messageEffect_def startStreaming_def initialStreaming_def)

text \<open>
  What the hook does for every non-empty text \<open>ft\<close> of length N: the first N runs of the
  callback each append \<^verbatim>\<open>fullText[k]\<close> for \<open>k\<close> from 1 to N, so the first character never
  appears and the last run appends \<^verbatim>\<open>undefined\<close>; run N + 1 makes the hook complete.
\<close>

lemma typewriter_run:
  assumes "get message ''type'' = JStr ''ai_message''"
    "\<not> truthy (get message ''is_partial'')" "\<not> truthy (get message ''is_complete'')"
    "ft \<noteq> []"
  shows "\<forall>k\<le>length ft.
            displayedText ((tick ^^ k) (messageEffect message ft initialStreaming))
              = concat (map (indexed ft) [1..<Suc k])
            \<and> \<not> isComplete ((tick ^^ k) (messageEffect message ft initialStreaming))"
    and "isComplete ((tick ^^ (length ft + 1)) (messageEffect message ft initialStreaming))"
    and "displayedText ((tick ^^ (length ft + 1)) (messageEffect message ft initialStreaming))
           = tl ft @ ''undefined''"
proof -
  let ?st0 = "messageEffect message ft initialStreaming"
  let ?s = "initialStreaming\<lparr>isStreaming := True, showCursor := True\<rparr>"
  have st0: "?st0 = ?s\<lparr>displayedText := [],
      streamIntervalRef := Some \<lparr>captured = ft, currentIndex = 0\<rparr>\<rparr>"
    using messageEffect_starts [OF assms] by simp
  have run: "k \<le> length ft \<Longrightarrow> (tick ^^ k) ?st0
      = ?s\<lparr>displayedText := concat (map (indexed ft) [1..<Suc k]),
           streamIntervalRef := Some \<lparr>captured = ft, currentIndex = k\<rparr>\<rparr>" for k
    unfolding st0 by (rule ticks_reveal)
  have fin: "(tick ^^ (length ft + 1)) ?st0
      = ?s\<lparr>displayedText := concat (map (indexed ft) [1..<Suc (length ft)]),
           streamIntervalRef := None, isStreaming := False,
           showCursor := False, isComplete := True, completions := 1\<rparr>"
    using run [of "length ft"] by (simp add: tick_def initialStreaming_def)
  have "map (indexed ft) [1..<length ft] = map (\<lambda>c. [c]) (tl ft)"
    by (rule nth_equalityI) (simp_all add: indexed_def nth_tl)
  moreover from assms(4) have "Suc 0 \<le> length ft"
    by (cases ft) simp_all
  ultimately have all: "concat (map (indexed ft) [1..<Suc (length ft)]) = tl ft @ ''undefined''"
    by (simp add: indexed_def)
  show "\<forall>k\<le>length ft.
            displayedText ((tick ^^ k) ?st0) = concat (map (indexed ft) [1..<Suc k])
            \<and> \<not> isComplete ((tick ^^ k) ?st0)"
  proof (intro allI impI)
    fix k
    assume k: "k \<le> length ft"
    show "displayedText ((tick ^^ k) ?st0) = concat (map (indexed ft) [1..<Suc k])
            \<and> \<not> isComplete ((tick ^^ k) ?st0)"
      by (simp only: run [OF k]) (simp add: initialStreaming_def)
  qed
  show "isComplete ((tick ^^ (length ft + 1)) ?st0)"
    by (simp only: fin) simp
  show "displayedText ((tick ^^ (length ft + 1)) ?st0) = tl ft @ ''undefined''"
    by (simp only: fin all) simp
qed

text \<open>
  The part of C7 that the code has: \<^verbatim>\<open>stopStreaming\<close>, in any state, shows the whole text
  in one step, clears the interval, hides the cursor and makes the hook complete; nothing
  ticks afterwards.
\<close>

lemma stopStreaming_completes:
  "displayedText (stopStreaming ft st) = ft
   \<and> streamIntervalRef (stopStreaming ft st) = None
   \<and> \<not> showCursor (stopStreaming ft st)
   \<and> \<not> isStreaming (stopStreaming ft st)
   \<and> isComplete (stopStreaming ft st)
   \<and> tick (stopStreaming ft st) = stopStreaming ft st"
  by (simp add: stopStreaming_def tick_def)

text \<open>
  Claim C7 fails on the code.  For the \<^verbatim>\<open>ai_message\<close> with content \<^verbatim>\<open>Hi!\<close>, neither
  partial nor complete, the three reveal runs show \<^verbatim>\<open>i\<close>, \<^verbatim>\<open>i!\<close> and \<^verbatim>\<open>i!undefined\<close>: the
  first character is never shown, the third run appends nine characters, and the hook
  becomes complete at the fourth run with \<^verbatim>\<open>i!undefined\<close> on display instead of the text.
\<close>

theorem typewriter_drops_first_character:
  "fullText [(''type'', JStr ''ai_message''), (''content'', JStr ''Hi!'')] = JStr ''Hi!''
   \<and> displayedText (tick
        (messageEffect [(''type'', JStr ''ai_message''), (''content'', JStr ''Hi!'')] ''Hi!''
           initialStreaming)) = ''i''
   \<and> displayedText ((tick ^^ 2)
        (messageEffect [(''type'', JStr ''ai_message''), (''content'', JStr ''Hi!'')] ''Hi!''
           initialStreaming)) = ''i!''
   \<and> displayedText ((tick ^^ 3)
        (messageEffect [(''type'', JStr ''ai_message''), (''content'', JStr ''Hi!'')] ''Hi!''
           initialStreaming)) = ''i!undefined''
   \<and> \<not> isComplete ((tick ^^ 3)
        (messageEffect [(''type'', JStr ''ai_message''), (''content'', JStr ''Hi!'')] ''Hi!''
           initialStreaming))
   \<and> isComplete ((tick ^^ 4)
        (messageEffect [(''type'', JStr ''ai_message''), (''content'', JStr ''Hi!'')] ''Hi!''
           initialStreaming))
   \<and> displayedText ((tick ^^ 4)
        (messageEffect [(''type'', JStr ''ai_message''), (''content'', JStr ''Hi!'')] ''Hi!''
           initialStreaming)) = ''i!undefined''"
  by (simp add: eval_nat_numeral messageEffect_def startStreaming_def tick_def indexed_def
        fullText_def orElse_def initialStreaming_def get_def)

section \<open>The first render\<close>

text \<open>
  Claim C8, as the code has it.  On its first render a message whose type is not
  \<^verbatim>\<open>ai_message\<close> goes straight to the complete state with its text shown.  An
  \<^verbatim>\<open>ai_message\<close> without text stays in the initial state: nothing streams, no cursor is
  shown and the displayed text is the (empty) text, but \<^verbatim>\<open>isComplete\<close> is false.
\<close>

theorem first_render:
  "(\<not> strict_eq (get message ''type'') (JStr ''ai_message'') \<longrightarrow>
      isComplete (messageEffect message ft initialStreaming)
      \<and> \<not> isStreaming (messageEffect message ft initialStreaming)
      \<and> \<not> showCursor (messageEffect message ft initialStreaming)
      \<and> displayedText (messageEffect message ft initialStreaming) = ft)
   \<and> (strict_eq (get message ''type'') (JStr ''ai_message'') \<and> ft = [] \<longrightarrow>
      messageEffect message ft initialStreaming = initialStreaming
      \<and> \<not> isComplete (messageEffect message ft initialStreaming)
      \<and> \<not> isStreaming (messageEffect message ft initialStreaming)
      \<and> \<not> showCursor (messageEffect message ft initialStreaming)
      \<and> displayedText (messageEffect message ft initialStreaming) = ft)"
  by (simp add: messageEffect_def initialStreaming_def)

text \<open>The theorem at an \<^verbatim>\<open>error\<close> message and at an \<^verbatim>\<open>ai_message\<close> without text.\<close>

theorem first_render_witness:
  "\<not> strict_eq (get [(''type'', JStr ''error''), (''detail'', JStr ''boom'')] ''type'')
       (JStr ''ai_message'')
   \<and> fullText [(''type'', JStr ''error''), (''detail'', JStr ''boom'')] = JStr ''boom''
   \<and> messageEffect [(''type'', JStr ''error''), (''detail'', JStr ''boom'')] ''boom''
        initialStreaming
      = initialStreaming\<lparr>displayedText := ''boom'', isComplete := True\<rparr>
   \<and> strict_eq (get [(''type'', JStr ''ai_message'')] ''type'') (JStr ''ai_message'')
   \<and> messageEffect [(''type'', JStr ''ai_message'')] [] initialStreaming = initialStreaming"
  using first_render [of "[(''type'', JStr ''error''), (''detail'', JStr ''boom'')]" "''boom''"]
    first_render [of "[(''type'', JStr ''ai_message'')]" "[]"]
  by (simp add: get_def fullText_def orElse_def messageEffect_def initialStreaming_def)

text \<open>
  Against C8 as stated: an \<^verbatim>\<open>ai_message\<close> with empty content is not complete after its
  first render.
\<close>

theorem empty_ai_message_counterexample:
  "fullText [(''type'', JStr ''ai_message''), (''content'', JStr '''')] = JStr ''''
   \<and> \<not> isComplete (messageEffect [(''type'', JStr ''ai_message''), (''content'', JStr '''')] []
          initialStreaming)"
  by (simp add: get_def fullText_def orElse_def messageEffect_def initialStreaming_def)

end
